theory Spec2Isabelle
  imports Complex_Main "HOL-Library.Word"
begin

unbundle bit_operations_syntax

section \<open>Betaflight configuration validation, activation and persistence (src/main/fc/config.c)\<close>

text \<open>
  A shallow embedding of \<^verbatim>\<open>src/main/fc/config.c\<close>. The C file works on global parameter
  groups, on three file-level variables (\<^verbatim>\<open>configIsDirty\<close>, \<^verbatim>\<open>rebootRequired\<close>,
  \<^verbatim>\<open>currentPidProfile\<close>) and calls into other subsystems. Here the parameter groups are
  the record \<open>config\<close>, the globals are fields of the record \<open>state\<close>, and every function is a
  state transformer. What the file takes from headers and other translation units that
  are not part of it (macros, enumerator values, tables, helper functions) is a field of
  the record \<open>target\<close>, so every result holds for any value of it unless a hypothesis says
  otherwise. Calls into other subsystems that return nothing to this file are appended
  to the state's \<open>calls\<close> log.
\<close>

subsection \<open>Conditional compilation\<close>

text \<open>The macros the file tests with \<^verbatim>\<open>#if\<close>/\<^verbatim>\<open>#ifdef\<close>; a build is the set of those defined.\<close>

datatype macro =
    USE_QUAD_MIXER_ONLY | USE_SERVOS | USE_GPS | USE_DYN_LPF | USE_RX_SPI | USE_SOFTSPI
  | STM32F10X | USE_ADC | USE_PWM | USE_PPM | USE_THROTTLE_BOOST | USE_GPS_RESCUE
  | USE_ESC_SENSOR | USE_DSHOT_TELEMETRY | USE_DSHOT_BITBANG | USE_SERIAL_RX
  | USE_SOFTSERIAL1 | USE_SOFTSERIAL2 | USE_RANGEFINDER | USE_TELEMETRY | USE_RX_MSP
  | USE_LED_STRIP | USE_DASHBOARD | USE_OSD | USE_TRANSPONDER | USE_GYRO_DATA_ANALYSE
  | USE_BEEPER | USE_TIMER | USE_DSHOT | USE_VTX_COMMON | USE_VTX_TABLE
  | TARGET_VALIDATECONFIG | STM32F1 | USE_BLACKBOX | USE_FLASHFS | USE_SDCARD
  | USE_TARGET_CONFIG | USE_ACC | USE_LED_STRIP_STATUS_MODE | USE_CUSTOM_DEFAULTS
  | USE_MULTI_GYRO

subsection \<open>Enumerations\<close>

text \<open>
  Each enumeration has the enumerators this file names and one more constructor for every
  other value the stored byte can hold.
\<close>

datatype feature =
    FEATURE_RX_PPM | FEATURE_RX_PARALLEL_PWM | FEATURE_RX_SERIAL | FEATURE_RX_MSP
  | FEATURE_RX_SPI | FEATURE_GPS | FEATURE_3D | FEATURE_SOFTSPI | FEATURE_SOFTSERIAL
  | FEATURE_LED_STRIP | FEATURE_RSSI_ADC | FEATURE_ESC_SENSOR | FEATURE_RANGEFINDER
  | FEATURE_TELEMETRY | FEATURE_DASHBOARD | FEATURE_OSD | FEATURE_SERVO_TILT
  | FEATURE_CHANNEL_FORWARDING | FEATURE_TRANSPONDER | FEATURE_DYNAMIC_FILTER
  | FEATURE_OTHER nat

datatype mixerMode_e = MIXER_CUSTOM | MIXER_CUSTOM_AIRPLANE | MIXER_CUSTOM_TRI | MIXER_OTHER nat

datatype gpsProvider_e = GPS_MSP | GPS_PROVIDER_OTHER nat

datatype motorPwmProtocolTypes_e =
    PWM_TYPE_STANDARD | PWM_TYPE_ONESHOT125 | PWM_TYPE_ONESHOT42 | PWM_TYPE_BRUSHED
  | PWM_TYPE_DSHOT150 | PWM_TYPE_DSHOT300 | PWM_TYPE_DSHOT600 | PWM_TYPE_PROSHOT1000
  | PWM_TYPE_OTHER nat

datatype dshotBitbangMode_e = DSHOT_BITBANG_OFF | DSHOT_BITBANG_ON | DSHOT_BITBANG_AUTO

datatype schedulerOptimizeRate_e =
    SCHEDULER_OPTIMIZE_RATE_OFF | SCHEDULER_OPTIMIZE_RATE_ON | SCHEDULER_OPTIMIZE_RATE_AUTO

datatype configurationState_e =
    CONFIGURATION_STATE_DEFAULTS_BARE | CONFIGURATION_STATE_CONFIGURED
  | CONFIGURATION_STATE_OTHER nat

datatype rcInterpolationChannels_e =
    INTERPOLATION_CHANNELS_RPY | INTERPOLATION_CHANNELS_RPYT | INTERPOLATION_CHANNELS_T
  | INTERPOLATION_CHANNELS_RPT | INTERPOLATION_CHANNELS_OTHER nat

datatype failsafeProcedure_e =
    FAILSAFE_PROCEDURE_GPS_RESCUE | FAILSAFE_PROCEDURE_DROP_IT | FAILSAFE_PROCEDURE_OTHER nat

datatype voltageMeterSource_e = VOLTAGE_METER_NONE | VOLTAGE_METER_OTHER nat

datatype currentMeterSource_e = CURRENT_METER_NONE | CURRENT_METER_ADC | CURRENT_METER_OTHER nat

datatype gyroHardwareLpf_e = GYRO_HARDWARE_LPF_1KHZ_SAMPLE | GYRO_HARDWARE_LPF_OTHER nat

datatype mpuSensor_e = ICM_20649_SPI | BMI_160_SPI | MPU_SENSOR_OTHER nat

datatype serialPortFunction_e = FUNCTION_GPS | FUNCTION_ESC_SENSOR

datatype armingDisableFlags_e = ARMING_DISABLED_REBOOT_REQUIRED | ARMING_DISABLED_OTHER nat

subsection \<open>Parameter groups\<close>

text \<open>
  One record per parameter group, with the fields this file reads or writes. Fixed-width
  unsigned fields are words. \<open>auto_profile_cell_count\<close> is a signed byte that C promotes to
  \<^verbatim>\<open>int\<close> wherever it is read, so it is an \<open>int\<close>. Arrays are lists: \<open>pidProfiles\<close> has
  \<^verbatim>\<open>PID_PROFILE_COUNT\<close> slots and \<open>modeActivationConditions\<close> has
  \<^verbatim>\<open>MAX_MODE_ACTIVATION_CONDITION_COUNT\<close>, so both counts are the lengths of the lists.
\<close>

record pidf_t =
  pid_P :: "8 word"
  pid_I :: "8 word"
  pid_D :: "8 word"
  pid_F :: "16 word"

record pidProfile_t =
  pid :: "pidf_t list"
  d_min :: "8 word list"
  dterm_lowpass_hz :: "16 word"
  dterm_lowpass2_hz :: "16 word"
  dterm_notch_hz :: "16 word"
  dterm_notch_cutoff :: "16 word"
  dyn_lpf_dterm_min_hz :: "16 word"
  dyn_lpf_dterm_max_hz :: "16 word"
  motor_output_limit :: "8 word"
  auto_profile_cell_count :: int
  throttle_boost :: "8 word"

text \<open>Indices of \<open>pid\<close> and \<open>d_min\<close>: the first three enumerators of their enumerations.\<close>

definition PID_ROLL :: nat where "PID_ROLL = 0"
definition PID_PITCH :: nat where "PID_PITCH = 1"
definition PID_YAW :: nat where "PID_YAW = 2"
definition FD_YAW :: nat where "FD_YAW = 2"

record systemConfig_t =
  pidProfileIndex :: "8 word"
  activeRateProfile :: "8 word"
  configurationState :: configurationState_e
  schedulerOptimizeRate :: schedulerOptimizeRate_e

record motorConfig_t =
  dev_motorPwmProtocol :: motorPwmProtocolTypes_e
  dev_motorPwmRate :: "16 word"
  dev_useUnsyncedPwm :: bool
  dev_useDshotTelemetry :: bool
  dev_useDshotBitbang :: dshotBitbangMode_e
  dev_useBurstDshot :: bool
  mincommand :: "16 word"
  minthrottle :: "16 word"

record gyroConfig_t =
  gyro_lowpass_hz :: "16 word"
  gyro_lowpass2_hz :: "16 word"
  gyro_soft_notch_hz_1 :: "16 word"
  gyro_soft_notch_cutoff_1 :: "16 word"
  gyro_soft_notch_hz_2 :: "16 word"
  gyro_soft_notch_cutoff_2 :: "16 word"
  dyn_lpf_gyro_min_hz :: "16 word"
  dyn_lpf_gyro_max_hz :: "16 word"
  gyro_hardware_lpf :: gyroHardwareLpf_e
  gyro_sync_denom :: "8 word"

record rxConfig_t =
  rssi_channel :: "8 word"
  rssi_src_frame_errors :: bool
  rcInterpolationChannels :: rcInterpolationChannels_e
  rc_smoothing :: "8 word list"

record serialPortConfig_t =
  port_identifier :: int
  functionMask :: "16 word"

record modeActivationCondition_t =
  modeId :: nat
  linkedTo :: nat

record sensorAlignment_t =
  align_roll :: int
  align_pitch :: int
  align_yaw :: int

record beeperConfig_t =
  beeper_off_flags :: "32 word"
  dshotBeaconOffFlags :: "32 word"
  dshotBeaconTone :: "8 word"

record beeperDevConfig_t =
  frequency :: "16 word"
  ioTag :: "8 word"

record vtxSettingsConfig_t =
  band :: "8 word"
  channel :: "8 word"
  power_vtx :: "8 word"
  freq :: "16 word"

record vtxTableConfig_t =
  bands :: "8 word"
  channels :: "8 word"
  powerLevels :: "8 word"

record config =
  enabledFeatures :: "feature set"
  mixerMode :: mixerMode_e
  serialConfig :: "serialPortConfig_t list"
  gps_provider :: gpsProvider_e
  pidProfiles :: "pidProfile_t list"
  systemConfig :: systemConfig_t
  motorConfig :: motorConfig_t
  gyroConfig :: gyroConfig_t
  pid_process_denom :: "8 word"
  rxConfig :: rxConfig_t
  mag_alignment :: nat
  mag_customAlignment :: sensorAlignment_t
  gyro_alignment :: "nat list"
  gyro_customAlignment :: "sensorAlignment_t list"
  voltageMeterSource :: voltageMeterSource_e
  currentMeterSource :: currentMeterSource_e
  failsafe_procedure :: failsafeProcedure_e
  modeActivationConditions :: "modeActivationCondition_t list"
  beeperConfig :: beeperConfig_t
  beeperDevConfig :: beeperDevConfig_t
  osd_timers :: "16 word list"
  vtxSettingsConfig :: vtxSettingsConfig_t
  vtxTableConfig :: vtxTableConfig_t
  blackbox_device :: "8 word"
  throttle_correction_angle :: "16 word"
  throttle_correction_value :: "8 word"
  accZero :: "int list"

definition PID_PROFILE_COUNT :: "config \<Rightarrow> nat" where
  "PID_PROFILE_COUNT c = length (pidProfiles c)"

definition MAX_MODE_ACTIVATION_CONDITION_COUNT :: "config \<Rightarrow> nat" where
  "MAX_MODE_ACTIVATION_CONDITION_COUNT c = length (modeActivationConditions c)"

subsection \<open>What the file takes from outside\<close>

text \<open>
  The build (the defined macros), the constants and tables of headers, and the helper
  functions of other translation units that this file calls and whose result it uses.
  A pointer-returning helper returns an option (\<open>None\<close> is \<^verbatim>\<open>NULL\<close>). \<open>pwmTypeValue\<close> is
  the numeric value of a motor protocol enumerator, which the file compares with
  \<^verbatim>\<open><=\<close>. \<open>intOfInfinity\<close> is what the target's conversion of a float infinity to
  \<^verbatim>\<open>int\<close> yields (C leaves it undefined).
\<close>

record target =
  defined :: "macro set"
  FILTER_FREQUENCY_MAX :: "16 word"
  MAX_AUTO_DETECT_CELL_COUNT :: int
  AUTO_PROFILE_CELL_COUNT_CHANGE :: int
  AUTO_PROFILE_CELL_COUNT_STAY :: int
  BRUSHLESS_MOTORS_PWM_RATE :: "16 word"
  MAX_PID_PROCESS_DENOM :: int
  DEFAULT_RX_FEATURE :: "feature set"
  CONTROL_RATE_PROFILE_COUNT :: nat
  BLACKBOX_DEVICE_NONE :: "8 word"
  BEEPER_ALLOWED_MODES :: "32 word"
  DSHOT_BEACON_ALLOWED_MODES :: "32 word"
  DSHOT_CMD_BEACON1 :: "8 word"
  DSHOT_CMD_BEACON5 :: "8 word"
  OSD_TIMER_SRC_COUNT :: nat
  OSD_TIMER_PREC_COUNT :: nat
  osdTimerDefault :: "16 word list"
  BOXARM :: nat
  BOXGPSRESCUE :: nat
  HZ_TO_INTERVAL_US :: "nat \<Rightarrow> nat"
  intOfInfinity :: int
  pwmTypeValue :: "motorPwmProtocolTypes_e \<Rightarrow> nat"
  mixers_motorCount :: "mixerMode_e \<Rightarrow> nat"
  mixers_motor_NULL :: "mixerMode_e \<Rightarrow> bool"
  mixers_useServo :: "mixerMode_e \<Rightarrow> bool"
  servoMixers_servoRuleCount :: "mixerMode_e \<Rightarrow> nat"
  isSerialConfigValid :: "serialPortConfig_t list \<Rightarrow> bool"
  pgResetFn_serialConfig :: "serialPortConfig_t list \<Rightarrow> serialPortConfig_t list"
  findSerialPortConfig ::
    "serialPortConfig_t list \<Rightarrow> serialPortFunction_e \<Rightarrow> serialPortConfig_t option"
  buildAlignmentFromStandardAlignment :: "sensorAlignment_t \<Rightarrow> nat \<Rightarrow> sensorAlignment_t"
  rcSmoothingIsEnabled :: "rxConfig_t \<Rightarrow> bool"
  isModeActivationConditionPresent :: "modeActivationCondition_t list \<Rightarrow> nat \<Rightarrow> bool"
  isModeActivationConditionLinked :: "modeActivationCondition_t list \<Rightarrow> nat \<Rightarrow> bool"
  removeModeActivationCondition ::
    "nat \<Rightarrow> modeActivationCondition_t list \<Rightarrow> modeActivationCondition_t list"
  timerGetByTag :: "8 word \<Rightarrow> bool"
  OSD_TIMER_SRC :: "16 word \<Rightarrow> nat"
  OSD_TIMER_PRECISION :: "16 word \<Rightarrow> nat"
  targetValidateConfiguration :: "config \<Rightarrow> config"
  pgResetAll :: "config \<Rightarrow> config"
  targetConfiguration :: "config \<Rightarrow> config"
  resetConfigToCustomDefaults :: "config \<Rightarrow> bool \<times> config"
  loadEEPROM :: "8 word list \<Rightarrow> config \<Rightarrow> bool \<times> config"
  writeConfigToEEPROM :: "config \<Rightarrow> 8 word list \<Rightarrow> 8 word list"
  isEEPROMStructureValid :: "8 word list \<Rightarrow> bool"

subsection \<open>Global state\<close>

text \<open>Calls into other subsystems, in the order made, with their arguments.\<close>

datatype call =
    SchedulerOptimizeRate bool
  | LoadControlRateProfile
  | InitRcProcessing
  | ActiveAdjustmentRangeReset
  | PidInit nat
  | RcControlsInit
  | FailsafeReset
  | SetAccelerationTrims "int list"
  | AccInitFilters
  | ImuConfigure "16 word" "8 word"
  | ReevaluateLedConfig
  | InitEscEndpoints
  | BeeperConfirmationBeeps nat
  | SerialRemovePort int
  | SuspendRxPwmPpmSignal
  | ResumeRxPwmPpmSignal
  | LoadEEPROM bool
  | WriteConfigToEEPROM
  | SetArmingDisabled armingDisableFlags_e

text \<open>
  \<open>currentPidProfile\<close> and \<open>currentControlRateProfile\<close> are pointers into the profile
  arrays: the slot pointed to. \<open>gyro_targetLooptime\<close> and \<open>gyroMpuDetectionResult_sensor\<close>
  are the two values of the gyro driver that the file reads. \<open>armingDisableFlags\<close>,
  \<open>rxSuspendCount\<close> and \<open>eeprom\<close> belong to other subsystems and change only through the
  helpers modelled below.
\<close>

record state =
  config :: config
  configIsDirty :: bool
  rebootRequired :: bool
  currentPidProfile :: nat
  currentControlRateProfile :: nat
  gyro_targetLooptime :: nat
  gyroMpuDetectionResult_sensor :: mpuSensor_e
  armingDisableFlags :: "armingDisableFlags_e set"
  rxSuspendCount :: int
  eeprom :: "8 word list"
  calls :: "call list"

definition call :: "call \<Rightarrow> state \<Rightarrow> state" where
  "call e s = s\<lparr>calls := calls s @ [e]\<rparr>"

subsection \<open>Profile manager\<close>

definition getCurrentPidProfileIndex :: "state \<Rightarrow> 8 word" where
  "getCurrentPidProfileIndex s = pidProfileIndex (systemConfig (config s))"

definition loadPidProfile :: "state \<Rightarrow> state" where
  "loadPidProfile s = s\<lparr>currentPidProfile := unat (pidProfileIndex (systemConfig (config s)))\<rparr>"

text \<open>
  Modelled from the spec: \<^verbatim>\<open>loadControlRateProfile\<close> (fc/controlrate_profile.c, not part of
  this file) repoints the current rate-profile handle at the slot \<open>activeRateProfile\<close>.
\<close>

definition loadControlRateProfile :: "state \<Rightarrow> state" where
  "loadControlRateProfile s =
     call LoadControlRateProfile
       (s\<lparr>currentControlRateProfile := unat (activeRateProfile (systemConfig (config s)))\<rparr>)"

definition getCurrentControlRateProfileIndex :: "state \<Rightarrow> 8 word" where
  "getCurrentControlRateProfileIndex s = activeRateProfile (systemConfig (config s))"

definition getCurrentMinthrottle :: "state \<Rightarrow> 16 word" where
  "getCurrentMinthrottle s = minthrottle (motorConfig (config s))"

text \<open>
  \<^verbatim>\<open>changePidProfile\<close>: the index is written and the pointer reloaded only when it is in
  range; the beep is emitted either way, with the argument \<^verbatim>\<open>pidProfileIndex + 1\<close>
  (computed in \<^verbatim>\<open>int\<close>).
\<close>

definition changePidProfile :: "8 word \<Rightarrow> state \<Rightarrow> state" where
  "changePidProfile pidProfileIndex' s =
     (let s1 =
        (if unat pidProfileIndex' < PID_PROFILE_COUNT (config s) then
           (let s2 = s\<lparr>config := (config s)\<lparr>systemConfig :=
                        (systemConfig (config s))\<lparr>pidProfileIndex := pidProfileIndex'\<rparr>\<rparr>\<rparr>;
                s3 = loadPidProfile s2;
                s4 = call (PidInit (currentPidProfile s3)) s3
            in call InitEscEndpoints s4)
         else s)
      in call (BeeperConfirmationBeeps (unat pidProfileIndex' + 1)) s1)"

text \<open>
  The scan of \<^verbatim>\<open>changePidProfileFromCellCount\<close>: the \<^verbatim>\<open>while\<close> loop with its
  \<^verbatim>\<open>break\<close>. The loop ends when \<open>profileIndex\<close> comes back to the active index, which it
  never does when that index is out of range, so the function is partial. Its result
  is \<open>matchingProfileIndex\<close>; the last argument only records the slots the loop has read.
\<close>

partial_function (option) scanPidProfiles ::
  "target \<Rightarrow> pidProfile_t list \<Rightarrow> nat \<Rightarrow> 8 word \<Rightarrow> nat \<Rightarrow> int \<Rightarrow> nat list
     \<Rightarrow> (int \<times> nat list) option"
where
  "scanPidProfiles t ps cur cellCount profileIndex matchingProfileIndex visited =
     (if profileIndex \<noteq> cur then
        (if auto_profile_cell_count (ps ! profileIndex) = uint cellCount then
           Some (int profileIndex, visited @ [profileIndex])
         else
           scanPidProfiles t ps cur cellCount ((profileIndex + 1) mod length ps)
             (if matchingProfileIndex < 0
                 \<and> auto_profile_cell_count (ps ! profileIndex) = AUTO_PROFILE_CELL_COUNT_STAY t
              then int profileIndex else matchingProfileIndex)
             (visited @ [profileIndex]))
      else Some (matchingProfileIndex, visited))"

definition changePidProfileFromCellCount :: "target \<Rightarrow> 8 word \<Rightarrow> state \<Rightarrow> state option" where
  "changePidProfileFromCellCount t cellCount s =
     (let cur = pidProfiles (config s) ! currentPidProfile s in
      if auto_profile_cell_count cur = uint cellCount
         \<or> auto_profile_cell_count cur = AUTO_PROFILE_CELL_COUNT_STAY t
      then Some s
      else
        (let idx = unat (pidProfileIndex (systemConfig (config s)));
             profileIndex = (idx + 1) mod PID_PROFILE_COUNT (config s)
         in case scanPidProfiles t (pidProfiles (config s)) idx cellCount profileIndex (- 1) [] of
              None \<Rightarrow> None
            | Some (matchingProfileIndex, visited) \<Rightarrow>
                if matchingProfileIndex \<ge> 0
                then Some (changePidProfile (word_of_int matchingProfileIndex) s)
                else Some s))"

subsection \<open>Feature flags and small helpers\<close>

text \<open>
  Modelled from the spec: the feature helpers (config/feature.c, not part of this file)
  test, set and clear bits of the feature mask; a mask is the set of its bits, and
  \<^verbatim>\<open>A | B\<close> is the union.
\<close>

definition featureIsEnabled :: "feature set \<Rightarrow> config \<Rightarrow> bool" where
  "featureIsEnabled features c = (enabledFeatures c \<inter> features \<noteq> {})"

definition featureEnable :: "feature set \<Rightarrow> config \<Rightarrow> config" where
  "featureEnable features c = c\<lparr>enabledFeatures := enabledFeatures c \<union> features\<rparr>"

definition featureDisable :: "feature set \<Rightarrow> config \<Rightarrow> config" where
  "featureDisable features c = c\<lparr>enabledFeatures := enabledFeatures c - features\<rparr>"

definition featureDisableAll :: "config \<Rightarrow> config" where
  "featureDisableAll c = c\<lparr>enabledFeatures := {}\<rparr>"

text \<open>
  Modelled from the spec: \<^verbatim>\<open>constrain\<close> (common/maths.h, not part of this file) clamps an
  \<^verbatim>\<open>int\<close> between a low and a high bound.
\<close>

definition constrain :: "int \<Rightarrow> int \<Rightarrow> int \<Rightarrow> int" where
  "constrain amt low high = (if amt < low then low else if amt > high then high else amt)"

text \<open>
  The \<^verbatim>\<open>float\<close> values of the timing code are exact rationals here (seconds). A float
  passed where C expects an \<^verbatim>\<open>int\<close> is truncated towards zero; \<^verbatim>\<open>lrintf\<close> rounds to
  the nearest integer.
\<close>

definition truncf :: "rat \<Rightarrow> int" where
  "truncf x = (if 0 \<le> x then \<lfloor>x\<rfloor> else \<lceil>x\<rceil>)"

definition lrintf :: "rat \<Rightarrow> int" where
  "lrintf x = round x"

definition onConfig :: "(config \<Rightarrow> config) \<Rightarrow> state \<Rightarrow> state" where
  "onConfig f s = s\<lparr>config := f (config s)\<rparr>"

definition adjustFilterLimit :: "target \<Rightarrow> 16 word \<Rightarrow> 16 word \<Rightarrow> 16 word" where
  "adjustFilterLimit t parm resetValue = (if parm > FILTER_FREQUENCY_MAX t then resetValue else parm)"

subsection \<open>The timing resolver: \<^verbatim>\<open>validateAndFixGyroConfig\<close>\<close>

definition DYNAMIC_FILTER_MAX_SUPPORTED_LOOP_TIME :: "target \<Rightarrow> nat" where
  "DYNAMIC_FILTER_MAX_SUPPORTED_LOOP_TIME t = HZ_TO_INTERVAL_US t 2000"

text \<open>Lines 554-582: the dynamic filter feature and the gyro filter limits.\<close>

definition fixGyroFilters :: "target \<Rightarrow> nat \<Rightarrow> config \<Rightarrow> config" where
  "fixGyroFilters t targetLooptime c =
     (let c1 = (if USE_GYRO_DATA_ANALYSE \<in> defined t
                   \<and> targetLooptime > DYNAMIC_FILTER_MAX_SUPPORTED_LOOP_TIME t
                then featureDisable {FEATURE_DYNAMIC_FILTER} c else c);
          g = gyroConfig c1;
          g1 = g\<lparr>gyro_lowpass_hz := adjustFilterLimit t (gyro_lowpass_hz g) (FILTER_FREQUENCY_MAX t)\<rparr>;
          g2 = g1\<lparr>gyro_lowpass2_hz := adjustFilterLimit t (gyro_lowpass2_hz g1) (FILTER_FREQUENCY_MAX t)\<rparr>;
          g3 = g2\<lparr>gyro_soft_notch_hz_1 :=
                    adjustFilterLimit t (gyro_soft_notch_hz_1 g2) (FILTER_FREQUENCY_MAX t)\<rparr>;
          g4 = g3\<lparr>gyro_soft_notch_cutoff_1 := adjustFilterLimit t (gyro_soft_notch_cutoff_1 g3) 0\<rparr>;
          g5 = g4\<lparr>gyro_soft_notch_hz_2 :=
                    adjustFilterLimit t (gyro_soft_notch_hz_2 g4) (FILTER_FREQUENCY_MAX t)\<rparr>;
          g6 = g5\<lparr>gyro_soft_notch_cutoff_2 := adjustFilterLimit t (gyro_soft_notch_cutoff_2 g5) 0\<rparr>;
          g7 = (if gyro_soft_notch_cutoff_1 g6 \<ge> gyro_soft_notch_hz_1 g6
                then g6\<lparr>gyro_soft_notch_hz_1 := 0\<rparr> else g6);
          g8 = (if gyro_soft_notch_cutoff_2 g7 \<ge> gyro_soft_notch_hz_2 g7
                then g7\<lparr>gyro_soft_notch_hz_2 := 0\<rparr> else g7);
          g9 = (if USE_DYN_LPF \<in> defined t \<and> dyn_lpf_gyro_min_hz g8 > dyn_lpf_gyro_max_hz g8
                then g8\<lparr>dyn_lpf_gyro_min_hz := 0\<rparr> else g8)
      in c1\<lparr>gyroConfig := g9\<rparr>)"

text \<open>Lines 584-591: 1 kHz sampling forces both denominators to 1; the STM32F1 floor of 3.\<close>

definition fixGyroDenoms :: "target \<Rightarrow> config \<Rightarrow> config" where
  "fixGyroDenoms t c =
     (let c1 = (if gyro_hardware_lpf (gyroConfig c) = GYRO_HARDWARE_LPF_1KHZ_SAMPLE
                then c\<lparr>pid_process_denom := 1, gyroConfig := (gyroConfig c)\<lparr>gyro_sync_denom := 1\<rparr>\<rparr>
                else c)
      in if STM32F1 \<in> defined t
         then c1\<lparr>gyroConfig := (gyroConfig c1)\<lparr>gyro_sync_denom := max (gyro_sync_denom (gyroConfig c1)) 3\<rparr>\<rparr>
         else c1)"

text \<open>Lines 593-614: the sampling interval of the detected sensor.\<close>

definition samplingTime :: "mpuSensor_e \<Rightarrow> config \<Rightarrow> rat" where
  "samplingTime sensor c =
     (let samplingTime0 =
        (case sensor of
           ICM_20649_SPI \<Rightarrow> 1 / 9000
         | BMI_160_SPI \<Rightarrow> 3125 / 10000000
         | _ \<Rightarrow> 125 / 1000000)
      in if gyro_hardware_lpf (gyroConfig c) = GYRO_HARDWARE_LPF_1KHZ_SAMPLE then
           (case sensor of
              ICM_20649_SPI \<Rightarrow> 1 / 1100
            | _ \<Rightarrow> 1 / 1000)
         else samplingTime0)"

text \<open>Lines 617-640: the minimum update interval of the motor protocol.\<close>

definition motorUpdateRestriction :: "target \<Rightarrow> config \<Rightarrow> rat" where
  "motorUpdateRestriction t c =
     (case dev_motorPwmProtocol (motorConfig c) of
        PWM_TYPE_STANDARD \<Rightarrow> 1 / of_nat (unat (BRUSHLESS_MOTORS_PWM_RATE t))
      | PWM_TYPE_ONESHOT125 \<Rightarrow> 5 / 10000
      | PWM_TYPE_ONESHOT42 \<Rightarrow> 1 / 10000
      | PWM_TYPE_DSHOT150 \<Rightarrow> (if USE_DSHOT \<in> defined t then 250 / 1000000 else 3125 / 100000000)
      | PWM_TYPE_DSHOT300 \<Rightarrow> (if USE_DSHOT \<in> defined t then 1 / 10000 else 3125 / 100000000)
      | _ \<Rightarrow> 3125 / 100000000)"

text \<open>
  Lines 642-654. With unsynced PWM only the PWM rate is capped. Otherwise the loop time
  \<open>pidLooptime\<close> (line 649) is compared with the restriction and \<open>pid_process_denom\<close>
  raised: the quotient of the restriction and \<open>gyroSampleTime\<close> (the divisor of line 651)
  is truncated to an \<^verbatim>\<open>int\<close>, clamped, stored in a byte and combined with \<^verbatim>\<open>MAX\<close>.
  A zero \<open>gyro_sync_denom\<close> makes the quotient a division by zero, a float infinity.
\<close>

definition gyroSampleTime :: "mpuSensor_e \<Rightarrow> config \<Rightarrow> rat" where
  "gyroSampleTime sensor c = samplingTime sensor c * of_nat (unat (gyro_sync_denom (gyroConfig c)))"

definition pidLooptime :: "mpuSensor_e \<Rightarrow> config \<Rightarrow> rat" where
  "pidLooptime sensor c =
     samplingTime sensor c * of_nat (unat (gyro_sync_denom (gyroConfig c)))
       * of_nat (unat (pid_process_denom c))"

definition fixLooptime :: "target \<Rightarrow> mpuSensor_e \<Rightarrow> config \<Rightarrow> config" where
  "fixLooptime t sensor c =
     (let m = motorConfig c in
      if dev_useUnsyncedPwm m then
        (if pwmTypeValue t (dev_motorPwmProtocol m) \<le> pwmTypeValue t PWM_TYPE_BRUSHED
            \<and> dev_motorPwmProtocol m \<noteq> PWM_TYPE_STANDARD
         then
           (let maxEscRate = (word_of_int (lrintf (1 / motorUpdateRestriction t c)) :: 32 word) in
            c\<lparr>motorConfig := m\<lparr>dev_motorPwmRate :=
                 (if unat (dev_motorPwmRate m) < unat maxEscRate then dev_motorPwmRate m
                  else ucast maxEscRate)\<rparr>\<rparr>)
         else c)
      else
        (if pidLooptime sensor c < motorUpdateRestriction t c then
           (let quotient = (if gyroSampleTime sensor c = 0 then intOfInfinity t
                            else truncf (motorUpdateRestriction t c / gyroSampleTime sensor c));
                minPidProcessDenom =
                  (word_of_int (constrain quotient 1 (MAX_PID_PROCESS_DENOM t)) :: 8 word)
            in c\<lparr>pid_process_denom := max (pid_process_denom c) minPidProcessDenom\<rparr>)
         else c))"

text \<open>Lines 656-668: a blackbox device that is not compiled in.\<close>

definition fixBlackboxDevice :: "target \<Rightarrow> config \<Rightarrow> config" where
  "fixBlackboxDevice t c =
     (if USE_BLACKBOX \<in> defined t then
        (let c1 = (if USE_FLASHFS \<notin> defined t \<and> blackbox_device c = 1
                   then c\<lparr>blackbox_device := BLACKBOX_DEVICE_NONE t\<rparr> else c)
         in if USE_SDCARD \<notin> defined t \<and> blackbox_device c1 = 2
            then c1\<lparr>blackbox_device := BLACKBOX_DEVICE_NONE t\<rparr> else c1)
      else c)"

text \<open>Lines 670-678: the two profile indices, each followed by the reload of its pointer.\<close>

definition fixActiveRateProfile :: "target \<Rightarrow> config \<Rightarrow> config" where
  "fixActiveRateProfile t c =
     (if unat (activeRateProfile (systemConfig c)) \<ge> CONTROL_RATE_PROFILE_COUNT t
      then c\<lparr>systemConfig := (systemConfig c)\<lparr>activeRateProfile := 0\<rparr>\<rparr> else c)"

definition fixPidProfileIndex :: "config \<Rightarrow> config" where
  "fixPidProfileIndex c =
     (if unat (pidProfileIndex (systemConfig c)) \<ge> PID_PROFILE_COUNT c
      then c\<lparr>systemConfig := (systemConfig c)\<lparr>pidProfileIndex := 0\<rparr>\<rparr> else c)"

definition validateAndFixGyroConfig :: "target \<Rightarrow> state \<Rightarrow> state" where
  "validateAndFixGyroConfig t s =
     (let s1 = onConfig (fixGyroFilters t (gyro_targetLooptime s)) s;
          s2 = onConfig (fixGyroDenoms t) s1;
          s3 = onConfig (fixLooptime t (gyroMpuDetectionResult_sensor s2)) s2;
          s4 = onConfig (fixBlackboxDevice t) s3;
          s5 = onConfig (fixActiveRateProfile t) s4;
          s6 = loadControlRateProfile s5;
          s7 = onConfig fixPidProfileIndex s6
      in loadPidProfile s7)"

subsection \<open>The rule evaluator: \<^verbatim>\<open>validateAndFixConfig\<close>\<close>

text \<open>
  The function is one long sequence of blocks. Each block is a definition here, named
  after what it repairs and given in source order; \<open>validateAndFixConfig\<close> composes them.
\<close>

text \<open>Lines 184-199: an unsupported mixer mode. The tests use the mode read on entry.\<close>

definition fixMixerMode :: "target \<Rightarrow> config \<Rightarrow> config" where
  "fixMixerMode t c =
     (if USE_QUAD_MIXER_ONLY \<in> defined t then c
      else
        (let mixerMode' = mixerMode c in
         if \<not> (mixerMode' = MIXER_CUSTOM \<or> mixerMode' = MIXER_CUSTOM_AIRPLANE
               \<or> mixerMode' = MIXER_CUSTOM_TRI)
         then
           (let c1 = (if mixers_motorCount t mixerMode' \<noteq> 0 \<and> mixers_motor_NULL t mixerMode'
                      then c\<lparr>mixerMode := MIXER_CUSTOM\<rparr> else c)
            in if USE_SERVOS \<in> defined t \<and> mixers_useServo t mixerMode'
                  \<and> servoMixers_servoRuleCount t mixerMode' = 0
               then c1\<lparr>mixerMode := MIXER_CUSTOM_AIRPLANE\<rparr> else c1)
         else c))"

text \<open>Lines 201-203.\<close>

definition fixSerialConfig :: "target \<Rightarrow> config \<Rightarrow> config" where
  "fixSerialConfig t c =
     (if \<not> isSerialConfigValid t (serialConfig c)
      then c\<lparr>serialConfig := pgResetFn_serialConfig t (serialConfig c)\<rparr> else c)"

text \<open>
  Lines 205-217. Without \<^verbatim>\<open>USE_GPS\<close> the condition of the second \<^verbatim>\<open>if\<close> is the
  literal \<^verbatim>\<open>true\<close>.
\<close>

definition fixGps :: "target \<Rightarrow> state \<Rightarrow> state" where
  "fixGps t s =
     (let gpsSerial = findSerialPortConfig t (serialConfig (config s)) FUNCTION_GPS;
          provider = gps_provider (config s);
          s1 = (if USE_GPS \<in> defined t then
                  (case gpsSerial of
                     Some port \<Rightarrow>
                       if provider = GPS_MSP then call (SerialRemovePort (port_identifier port)) s
                       else s
                   | None \<Rightarrow> s)
                else s)
      in if (if USE_GPS \<in> defined t then provider \<noteq> GPS_MSP \<and> gpsSerial = None else True)
         then onConfig (featureDisable {FEATURE_GPS}) s1 else s1)"

text \<open>
  Lines 219-253, the body of the loop for one profile, and the loop over the slots
  \<open>0 .. PID_PROFILE_COUNT - 1\<close>.
\<close>

definition fixDMin :: "nat \<Rightarrow> pidProfile_t \<Rightarrow> pidProfile_t" where
  "fixDMin axis p =
     (if d_min p ! axis \<ge> pid_D (pid p ! axis) then p\<lparr>d_min := (d_min p)[axis := 0]\<rparr> else p)"

definition fixPidProfile :: "target \<Rightarrow> pidProfile_t \<Rightarrow> pidProfile_t" where
  "fixPidProfile t p =
     (let p1 = p\<lparr>dterm_lowpass_hz := adjustFilterLimit t (dterm_lowpass_hz p) (FILTER_FREQUENCY_MAX t)\<rparr>;
          p2 = p1\<lparr>dterm_lowpass2_hz :=
                    adjustFilterLimit t (dterm_lowpass2_hz p1) (FILTER_FREQUENCY_MAX t)\<rparr>;
          p3 = p2\<lparr>dterm_notch_hz := adjustFilterLimit t (dterm_notch_hz p2) (FILTER_FREQUENCY_MAX t)\<rparr>;
          p4 = p3\<lparr>dterm_notch_cutoff := adjustFilterLimit t (dterm_notch_cutoff p3) 0\<rparr>;
          p5 = (if dterm_notch_cutoff p4 \<ge> dterm_notch_hz p4 then p4\<lparr>dterm_notch_hz := 0\<rparr> else p4);
          p6 = (if USE_DYN_LPF \<in> defined t \<and> dyn_lpf_dterm_min_hz p5 > dyn_lpf_dterm_max_hz p5
                then p5\<lparr>dyn_lpf_dterm_min_hz := 0\<rparr> else p5);
          p7 = (if motor_output_limit p6 > 100 \<or> motor_output_limit p6 = 0
                then p6\<lparr>motor_output_limit := 100\<rparr> else p6);
          p8 = (if auto_profile_cell_count p7 > MAX_AUTO_DETECT_CELL_COUNT t
                   \<or> auto_profile_cell_count p7 < AUTO_PROFILE_CELL_COUNT_CHANGE t
                then p7\<lparr>auto_profile_cell_count := AUTO_PROFILE_CELL_COUNT_STAY t\<rparr> else p7)
      in fold fixDMin [0..<FD_YAW + 1] p8)"

definition forPidProfiles :: "(pidProfile_t \<Rightarrow> pidProfile_t) \<Rightarrow> config \<Rightarrow> config" where
  "forPidProfiles f c =
     c\<lparr>pidProfiles := fold (\<lambda>i ps. ps[i := f (ps ! i)]) [0..<PID_PROFILE_COUNT c] (pidProfiles c)\<rparr>"

definition fixPidProfiles :: "target \<Rightarrow> config \<Rightarrow> config" where
  "fixPidProfiles t c = forPidProfiles (fixPidProfile t) c"

text \<open>Lines 255-261.\<close>

definition fixBrushed :: "config \<Rightarrow> config" where
  "fixBrushed c =
     (if dev_motorPwmProtocol (motorConfig c) = PWM_TYPE_BRUSHED then
        (let c1 = featureDisable {FEATURE_3D} c in
         if mincommand (motorConfig c1) < 1000
         then c1\<lparr>motorConfig := (motorConfig c1)\<lparr>mincommand := 1000\<rparr>\<rparr> else c1)
      else c)"

text \<open>Lines 263-265.\<close>

definition fixStandardPwmRate :: "target \<Rightarrow> config \<Rightarrow> config" where
  "fixStandardPwmRate t c =
     (if dev_motorPwmProtocol (motorConfig c) = PWM_TYPE_STANDARD
         \<and> dev_motorPwmRate (motorConfig c) > BRUSHLESS_MOTORS_PWM_RATE t
      then c\<lparr>motorConfig := (motorConfig c)\<lparr>dev_motorPwmRate := BRUSHLESS_MOTORS_PWM_RATE t\<rparr>\<rparr>
      else c)"

text \<open>Lines 269-273: the custom alignments are rebuilt from the standard ones.\<close>

definition fixAlignments :: "target \<Rightarrow> config \<Rightarrow> config" where
  "fixAlignments t c =
     (let c1 = c\<lparr>mag_customAlignment :=
                  buildAlignmentFromStandardAlignment t (mag_customAlignment c) (mag_alignment c)\<rparr>;
          c2 = c1\<lparr>gyro_customAlignment := (gyro_customAlignment c1)
                  [0 := buildAlignmentFromStandardAlignment t
                          (gyro_customAlignment c1 ! 0) (gyro_alignment c1 ! 0)]\<rparr>
      in if USE_MULTI_GYRO \<in> defined t
         then c2\<lparr>gyro_customAlignment := (gyro_customAlignment c2)
                  [1 := buildAlignmentFromStandardAlignment t
                          (gyro_customAlignment c2 ! 1) (gyro_alignment c2 ! 1)]\<rparr>
         else c2)"

text \<open>Lines 275-299: the receiver-input features.\<close>

definition fixRxFeatures :: "target \<Rightarrow> config \<Rightarrow> config" where
  "fixRxFeatures t c =
     (let c1 = (if \<not> (featureIsEnabled {FEATURE_RX_PARALLEL_PWM} c \<or> featureIsEnabled {FEATURE_RX_PPM} c
                       \<or> featureIsEnabled {FEATURE_RX_SERIAL} c \<or> featureIsEnabled {FEATURE_RX_MSP} c
                       \<or> featureIsEnabled {FEATURE_RX_SPI} c)
                then featureEnable (DEFAULT_RX_FEATURE t) c else c);
          c2 = (if featureIsEnabled {FEATURE_RX_PPM} c1
                then featureDisable
                       {FEATURE_RX_SERIAL, FEATURE_RX_PARALLEL_PWM, FEATURE_RX_MSP, FEATURE_RX_SPI} c1
                else c1);
          c3 = (if featureIsEnabled {FEATURE_RX_MSP} c2
                then featureDisable
                       {FEATURE_RX_SERIAL, FEATURE_RX_PARALLEL_PWM, FEATURE_RX_PPM, FEATURE_RX_SPI} c2
                else c2);
          c4 = (if featureIsEnabled {FEATURE_RX_SERIAL} c3
                then featureDisable
                       {FEATURE_RX_PARALLEL_PWM, FEATURE_RX_MSP, FEATURE_RX_PPM, FEATURE_RX_SPI} c3
                else c3);
          c5 = (if USE_RX_SPI \<in> defined t \<and> featureIsEnabled {FEATURE_RX_SPI} c4
                then featureDisable
                       {FEATURE_RX_SERIAL, FEATURE_RX_PARALLEL_PWM, FEATURE_RX_PPM, FEATURE_RX_MSP} c4
                else c4)
      in if featureIsEnabled {FEATURE_RX_PARALLEL_PWM} c5
         then featureDisable {FEATURE_RX_SERIAL, FEATURE_RX_MSP, FEATURE_RX_PPM, FEATURE_RX_SPI} c5
         else c5)"

text \<open>Lines 301-315.\<close>

definition fixSoftSpi :: "target \<Rightarrow> config \<Rightarrow> config" where
  "fixSoftSpi t c =
     (if USE_SOFTSPI \<in> defined t \<and> featureIsEnabled {FEATURE_SOFTSPI} c then
        (let c1 = featureDisable {FEATURE_RX_PPM, FEATURE_RX_PARALLEL_PWM, FEATURE_SOFTSERIAL} c;
             c2 = c1\<lparr>voltageMeterSource := VOLTAGE_METER_NONE\<rparr>
         in if STM32F10X \<in> defined t then
              (let c3 = featureDisable {FEATURE_LED_STRIP} c2;
                   c4 = featureDisable {FEATURE_RSSI_ADC} c3
               in if currentMeterSource c4 = CURRENT_METER_ADC
                  then c4\<lparr>currentMeterSource := CURRENT_METER_NONE\<rparr> else c4)
            else c2)
      else c)"

text \<open>Lines 317-329.\<close>

definition fixRssi :: "target \<Rightarrow> config \<Rightarrow> config" where
  "fixRssi t c =
     (if USE_ADC \<in> defined t \<and> featureIsEnabled {FEATURE_RSSI_ADC} c
      then c\<lparr>rxConfig := (rxConfig c)\<lparr>rssi_channel := 0, rssi_src_frame_errors := False\<rparr>\<rparr>
      else if rssi_channel (rxConfig c) \<noteq> 0
              \<or> ((USE_PWM \<in> defined t \<or> USE_PPM \<in> defined t)
                  \<and> (featureIsEnabled {FEATURE_RX_PPM} c \<or> featureIsEnabled {FEATURE_RX_PARALLEL_PWM} c))
      then c\<lparr>rxConfig := (rxConfig c)\<lparr>rssi_src_frame_errors := False\<rparr>\<rparr>
      else c)"

text \<open>Lines 331-356: feedforward and throttle boost without the matching smoothing.\<close>

definition clearF :: "nat \<Rightarrow> pidProfile_t \<Rightarrow> pidProfile_t" where
  "clearF axis p = p\<lparr>pid := (pid p)[axis := (pid p ! axis)\<lparr>pid_F := 0\<rparr>]\<rparr>"

definition fixFeedforward :: "target \<Rightarrow> config \<Rightarrow> config" where
  "fixFeedforward t c =
     (let smoothing = rcSmoothingIsEnabled t (rxConfig c);
          chans = rcInterpolationChannels (rxConfig c);
          c1 = (if \<not> smoothing \<or> chans = INTERPOLATION_CHANNELS_T
                then forPidProfiles (\<lambda>p. clearF PID_PITCH (clearF PID_ROLL p)) c else c);
          c2 = (if \<not> smoothing
                   \<or> (chans \<noteq> INTERPOLATION_CHANNELS_RPY \<and> chans \<noteq> INTERPOLATION_CHANNELS_RPYT)
                then forPidProfiles (clearF PID_YAW) c1 else c1)
      in if USE_THROTTLE_BOOST \<in> defined t
            \<and> (\<not> smoothing
                \<or> \<not> (chans = INTERPOLATION_CHANNELS_RPYT \<or> chans = INTERPOLATION_CHANNELS_T
                      \<or> chans = INTERPOLATION_CHANNELS_RPT))
         then forPidProfiles (\<lambda>p. p\<lparr>throttle_boost := 0\<rparr>) c2 else c2)"

text \<open>
  Lines 358-374. Without \<^verbatim>\<open>USE_GPS\<close> or \<^verbatim>\<open>USE_GPS_RESCUE\<close> the condition ends in
  \<^verbatim>\<open>|| true\<close>.
\<close>

definition fixGpsRescue :: "target \<Rightarrow> config \<Rightarrow> config" where
  "fixGpsRescue t c =
     (if featureIsEnabled {FEATURE_3D} c \<or> \<not> featureIsEnabled {FEATURE_GPS} c
         \<or> USE_GPS \<notin> defined t \<or> USE_GPS_RESCUE \<notin> defined t
      then
        (let c1 = (if USE_GPS_RESCUE \<in> defined t
                      \<and> failsafe_procedure c = FAILSAFE_PROCEDURE_GPS_RESCUE
                   then c\<lparr>failsafe_procedure := FAILSAFE_PROCEDURE_DROP_IT\<rparr> else c)
         in if isModeActivationConditionPresent t (modeActivationConditions c1) (BOXGPSRESCUE t)
            then c1\<lparr>modeActivationConditions :=
                      removeModeActivationCondition t (BOXGPSRESCUE t) (modeActivationConditions c1)\<rparr>
            else c1)
      else c)"

text \<open>Lines 376-380.\<close>

definition fixEscSensor :: "target \<Rightarrow> config \<Rightarrow> config" where
  "fixEscSensor t c =
     (if USE_ESC_SENSOR \<in> defined t
         \<and> findSerialPortConfig t (serialConfig c) FUNCTION_ESC_SENSOR = None
      then featureDisable {FEATURE_ESC_SENSOR} c else c)"

text \<open>Lines 382-390: the loop reads slot \<open>i\<close> of the array as the earlier rounds left it.\<close>

definition fixLinkedCondition ::
  "target \<Rightarrow> nat \<Rightarrow> modeActivationCondition_t list \<Rightarrow> modeActivationCondition_t list" where
  "fixLinkedCondition t i macs =
     (let mac = macs ! i in
      if linkedTo mac \<noteq> 0 then
        (if modeId mac = BOXARM t \<or> isModeActivationConditionLinked t macs (linkedTo mac)
         then removeModeActivationCondition t (modeId mac) macs else macs)
      else macs)"

definition fixModeActivationConditions :: "target \<Rightarrow> config \<Rightarrow> config" where
  "fixModeActivationConditions t c =
     c\<lparr>modeActivationConditions :=
          fold (fixLinkedCondition t) [0..<MAX_MODE_ACTIVATION_CONDITION_COUNT c]
            (modeActivationConditions c)\<rparr>"

text \<open>Lines 392-397.\<close>

definition fixDshotBitbang :: "target \<Rightarrow> config \<Rightarrow> config" where
  "fixDshotBitbang t c =
     (if USE_DSHOT_TELEMETRY \<in> defined t \<and> USE_DSHOT_BITBANG \<in> defined t
         \<and> dev_motorPwmProtocol (motorConfig c) = PWM_TYPE_PROSHOT1000
         \<and> dev_useDshotTelemetry (motorConfig c)
         \<and> dev_useDshotBitbang (motorConfig c) = DSHOT_BITBANG_ON
      then c\<lparr>motorConfig := (motorConfig c)\<lparr>dev_useDshotBitbang := DSHOT_BITBANG_AUTO\<rparr>\<rparr>
      else c)"

text \<open>Lines 399-468: features whose support is not compiled in.\<close>

definition disableUnless :: "bool \<Rightarrow> feature set \<Rightarrow> config \<Rightarrow> config" where
  "disableUnless compiled features c = (if compiled then c else featureDisable features c)"

definition clearUnsupportedFeatures :: "target \<Rightarrow> config \<Rightarrow> config" where
  "clearUnsupportedFeatures t c =
     (let d = defined t;
          c1 = disableUnless (USE_PPM \<in> d) {FEATURE_RX_PPM} c;
          c2 = disableUnless (USE_SERIAL_RX \<in> d) {FEATURE_RX_SERIAL} c1;
          c3 = disableUnless (USE_SOFTSERIAL1 \<in> d \<or> USE_SOFTSERIAL2 \<in> d) {FEATURE_SOFTSERIAL} c2;
          c4 = disableUnless (USE_RANGEFINDER \<in> d) {FEATURE_RANGEFINDER} c3;
          c5 = disableUnless (USE_TELEMETRY \<in> d) {FEATURE_TELEMETRY} c4;
          c6 = disableUnless (USE_PWM \<in> d) {FEATURE_RX_PARALLEL_PWM} c5;
          c7 = disableUnless (USE_RX_MSP \<in> d) {FEATURE_RX_MSP} c6;
          c8 = disableUnless (USE_LED_STRIP \<in> d) {FEATURE_LED_STRIP} c7;
          c9 = disableUnless (USE_DASHBOARD \<in> d) {FEATURE_DASHBOARD} c8;
          c10 = disableUnless (USE_OSD \<in> d) {FEATURE_OSD} c9;
          c11 = disableUnless (USE_SERVOS \<in> d) {FEATURE_SERVO_TILT, FEATURE_CHANNEL_FORWARDING} c10;
          c12 = disableUnless (USE_TRANSPONDER \<in> d) {FEATURE_TRANSPONDER} c11;
          c13 = disableUnless (USE_RX_SPI \<in> d) {FEATURE_RX_SPI} c12;
          c14 = disableUnless (USE_SOFTSPI \<in> d) {FEATURE_SOFTSPI} c13;
          c15 = disableUnless (USE_ESC_SENSOR \<in> d) {FEATURE_ESC_SENSOR} c14;
          c16 = disableUnless (USE_GYRO_DATA_ANALYSE \<in> d) {FEATURE_DYNAMIC_FILTER} c15
      in disableUnless (USE_ADC \<in> d) {FEATURE_RSSI_ADC} c16)"

text \<open>Lines 470-491.\<close>

definition fixBeeper :: "target \<Rightarrow> config \<Rightarrow> config" where
  "fixBeeper t c =
     (if USE_BEEPER \<in> defined t then
        (let c1 = (if USE_TIMER \<in> defined t \<and> frequency (beeperDevConfig c) \<noteq> 0
                      \<and> \<not> timerGetByTag t (ioTag (beeperDevConfig c))
                   then c\<lparr>beeperDevConfig := (beeperDevConfig c)\<lparr>frequency := 0\<rparr>\<rparr> else c);
             b = beeperConfig c1;
             b1 = (if beeper_off_flags b AND NOT (BEEPER_ALLOWED_MODES t) \<noteq> 0
                   then b\<lparr>beeper_off_flags := 0\<rparr> else b);
             b2 = (if USE_DSHOT \<in> defined t
                      \<and> dshotBeaconOffFlags b1 AND NOT (DSHOT_BEACON_ALLOWED_MODES t) \<noteq> 0
                   then b1\<lparr>dshotBeaconOffFlags := 0\<rparr> else b1);
             b3 = (if USE_DSHOT \<in> defined t
                      \<and> (dshotBeaconTone b2 < DSHOT_CMD_BEACON1 t \<or> dshotBeaconTone b2 > DSHOT_CMD_BEACON5 t)
                   then b2\<lparr>dshotBeaconTone := DSHOT_CMD_BEACON1 t\<rparr> else b2)
         in c1\<lparr>beeperConfig := b3\<rparr>)
      else c)"

text \<open>Lines 493-518.\<close>

definition fixDshot :: "target \<Rightarrow> config \<Rightarrow> config" where
  "fixDshot t c =
     (if USE_DSHOT \<in> defined t then
        (let usingDshotProtocol =
               (case dev_motorPwmProtocol (motorConfig c) of
                  PWM_TYPE_PROSHOT1000 \<Rightarrow> True
                | PWM_TYPE_DSHOT600 \<Rightarrow> True
                | PWM_TYPE_DSHOT300 \<Rightarrow> True
                | PWM_TYPE_DSHOT150 \<Rightarrow> True
                | _ \<Rightarrow> False);
             c1 = (if usingDshotProtocol
                   then c\<lparr>motorConfig := (motorConfig c)\<lparr>dev_useUnsyncedPwm := False\<rparr>\<rparr> else c);
             m = motorConfig c1
         in if USE_DSHOT_TELEMETRY \<in> defined t
               \<and> (\<not> usingDshotProtocol
                   \<or> (dev_useDshotBitbang m = DSHOT_BITBANG_OFF \<and> dev_useBurstDshot m)
                   \<or> schedulerOptimizeRate (systemConfig c1) = SCHEDULER_OPTIMIZE_RATE_OFF)
               \<and> dev_useDshotTelemetry m
            then c1\<lparr>motorConfig := m\<lparr>dev_useDshotTelemetry := False\<rparr>\<rparr> else c1)
      else c)"

text \<open>Lines 520-528; \<^verbatim>\<open>OSD_TIMER_COUNT\<close> is the length of the timer array.\<close>

definition fixOsdTimer :: "target \<Rightarrow> nat \<Rightarrow> 16 word list \<Rightarrow> 16 word list" where
  "fixOsdTimer t i timers =
     (let tm = timers ! i in
      if OSD_TIMER_SRC t tm \<ge> OSD_TIMER_SRC_COUNT t \<or> OSD_TIMER_PRECISION t tm \<ge> OSD_TIMER_PREC_COUNT t
      then timers[i := osdTimerDefault t ! i] else timers)"

definition fixOsdTimers :: "target \<Rightarrow> config \<Rightarrow> config" where
  "fixOsdTimers t c =
     (if USE_OSD \<in> defined t
      then c\<lparr>osd_timers := fold (fixOsdTimer t) [0..<length (osd_timers c)] (osd_timers c)\<rparr>
      else c)"

text \<open>Lines 530-545.\<close>

definition fixVtx :: "target \<Rightarrow> config \<Rightarrow> config" where
  "fixVtx t c =
     (if USE_VTX_COMMON \<in> defined t \<and> USE_VTX_TABLE \<in> defined t then
        (let tbl = vtxTableConfig c;
             v = vtxSettingsConfig c;
             v1 = (if channel v > channels tbl then
                     (let v' = v\<lparr>channel := 0\<rparr> in if band v' > 0 then v'\<lparr>freq := 0\<rparr> else v')
                   else v);
             v2 = (if band v1 > bands tbl then v1\<lparr>band := 0, freq := 0\<rparr> else v1);
             v3 = (if power_vtx v2 > powerLevels tbl then v2\<lparr>power_vtx := 0\<rparr> else v2)
         in c\<lparr>vtxSettingsConfig := v3\<rparr>)
      else c)"

text \<open>Lines 547-549: the target's own hook.\<close>

definition fixTarget :: "target \<Rightarrow> config \<Rightarrow> config" where
  "fixTarget t c = (if TARGET_VALIDATECONFIG \<in> defined t then targetValidateConfiguration t c else c)"

definition validateAndFixConfig :: "target \<Rightarrow> state \<Rightarrow> state" where
  "validateAndFixConfig t s =
     (let s1 = onConfig (fixMixerMode t) s;
          s2 = onConfig (fixSerialConfig t) s1;
          s3 = fixGps t s2;
          s4 = onConfig (fixPidProfiles t) s3;
          s5 = onConfig fixBrushed s4;
          s6 = onConfig (fixStandardPwmRate t) s5;
          s7 = validateAndFixGyroConfig t s6;
          s8 = onConfig (fixAlignments t) s7;
          s9 = onConfig (fixRxFeatures t) s8;
          s10 = onConfig (fixSoftSpi t) s9;
          s11 = onConfig (fixRssi t) s10;
          s12 = onConfig (fixFeedforward t) s11;
          s13 = onConfig (fixGpsRescue t) s12;
          s14 = onConfig (fixEscSensor t) s13;
          s15 = onConfig (fixModeActivationConditions t) s14;
          s16 = onConfig (fixDshotBitbang t) s15;
          s17 = onConfig (clearUnsupportedFeatures t) s16;
          s18 = onConfig (fixBeeper t) s17;
          s19 = onConfig (fixDshot t) s18;
          s20 = onConfig (fixOsdTimers t) s19
      in onConfig (fixTarget t) (onConfig (fixVtx t) s20))"

subsection \<open>Activation\<close>

definition activateConfig :: "target \<Rightarrow> state \<Rightarrow> state" where
  "activateConfig t s =
     (let sc = systemConfig (config s);
          s1 = call (SchedulerOptimizeRate
                  (schedulerOptimizeRate sc = SCHEDULER_OPTIMIZE_RATE_ON
                   \<or> (schedulerOptimizeRate sc = SCHEDULER_OPTIMIZE_RATE_AUTO
                       \<and> dev_useDshotTelemetry (motorConfig (config s))))) s;
          s2 = loadPidProfile s1;
          s3 = loadControlRateProfile s2;
          s4 = call InitRcProcessing s3;
          s5 = call ActiveAdjustmentRangeReset s4;
          s6 = call (PidInit (currentPidProfile s5)) s5;
          s7 = call RcControlsInit s6;
          s8 = call FailsafeReset s7;
          s9 = (if USE_ACC \<in> defined t
                then call AccInitFilters (call (SetAccelerationTrims (accZero (config s8))) s8)
                else s8);
          s10 = call (ImuConfigure (throttle_correction_angle (config s9))
                        (throttle_correction_value (config s9))) s9
      in if USE_LED_STRIP_STATUS_MODE \<in> defined t then call ReevaluateLedConfig s10 else s10)"

subsection \<open>Persistence\<close>

text \<open>
  Modelled from the spec: \<^verbatim>\<open>suspendRxPwmPpmSignal\<close> and \<^verbatim>\<open>resumeRxPwmPpmSignal\<close> (rx/rx.c,
  not part of this file) acquire and release the suspension of receiver-signal sampling,
  counted by the suspend counter.
\<close>

definition suspendRxPwmPpmSignal :: "state \<Rightarrow> state" where
  "suspendRxPwmPpmSignal s = call SuspendRxPwmPpmSignal (s\<lparr>rxSuspendCount := rxSuspendCount s + 1\<rparr>)"

definition resumeRxPwmPpmSignal :: "state \<Rightarrow> state" where
  "resumeRxPwmPpmSignal s = call ResumeRxPwmPpmSignal (s\<lparr>rxSuspendCount := rxSuspendCount s - 1\<rparr>)"

text \<open>
  The storage engine (config/config_eeprom.c, not part of this file) is the target's:
  \<open>loadEEPROM\<close> reads the store into the parameter groups and reports success,
  \<open>writeConfigToEEPROM\<close> writes them. The two wrappers log the access.
\<close>

definition storageLoad :: "target \<Rightarrow> state \<Rightarrow> bool \<times> state" where
  "storageLoad t s =
     (let (success, c) = loadEEPROM t (eeprom s) (config s)
      in (success, call (LoadEEPROM success) (s\<lparr>config := c\<rparr>)))"

definition storageWrite :: "target \<Rightarrow> state \<Rightarrow> state" where
  "storageWrite t s =
     call WriteConfigToEEPROM (s\<lparr>eeprom := writeConfigToEEPROM t (config s) (eeprom s)\<rparr>)"

definition resetConfig :: "target \<Rightarrow> state \<Rightarrow> state" where
  "resetConfig t s =
     (let s1 = onConfig (pgResetAll t) s
      in if USE_TARGET_CONFIG \<in> defined t then onConfig (targetConfiguration t) s1 else s1)"

definition readEEPROM :: "target \<Rightarrow> state \<Rightarrow> bool \<times> state" where
  "readEEPROM t s =
     (let s1 = suspendRxPwmPpmSignal s;
          (success, s2) = storageLoad t s1;
          s3 = validateAndFixConfig t s2;
          s4 = activateConfig t s3;
          s5 = resumeRxPwmPpmSignal s4
      in (success, s5))"

definition writeUnmodifiedConfigToEEPROM :: "target \<Rightarrow> state \<Rightarrow> state" where
  "writeUnmodifiedConfigToEEPROM t s =
     (let s1 = validateAndFixConfig t s;
          s2 = suspendRxPwmPpmSignal s1;
          s3 = storageWrite t s2;
          s4 = resumeRxPwmPpmSignal s3
      in s4\<lparr>configIsDirty := False\<rparr>)"

definition writeEEPROM :: "target \<Rightarrow> state \<Rightarrow> state" where
  "writeEEPROM t s =
     writeUnmodifiedConfigToEEPROM t
       (onConfig (\<lambda>c. c\<lparr>systemConfig :=
          (systemConfig c)\<lparr>configurationState := CONFIGURATION_STATE_CONFIGURED\<rparr>\<rparr>) s)"

definition writeEEPROMWithFeatures :: "target \<Rightarrow> feature set \<Rightarrow> state \<Rightarrow> state" where
  "writeEEPROMWithFeatures t features s =
     writeEEPROM t (onConfig (featureEnable features) (onConfig featureDisableAll s))"

definition resetEEPROM :: "target \<Rightarrow> bool \<Rightarrow> state \<Rightarrow> bool \<times> state" where
  "resetEEPROM t useCustomDefaults s =
     (if USE_CUSTOM_DEFAULTS \<in> defined t \<and> useCustomDefaults then
        (let (ok, c) = resetConfigToCustomDefaults t (config s) in
         if \<not> ok then (False, s\<lparr>config := c\<rparr>)
         else (True, writeUnmodifiedConfigToEEPROM t (s\<lparr>config := c\<rparr>)))
      else (True, writeUnmodifiedConfigToEEPROM t (resetConfig t s)))"

definition ensureEEPROMStructureIsValid :: "target \<Rightarrow> state \<Rightarrow> state" where
  "ensureEEPROMStructureIsValid t s =
     (if isEEPROMStructureValid t (eeprom s) then s else snd (resetEEPROM t False s))"

definition saveConfigAndNotify :: "target \<Rightarrow> state \<Rightarrow> state" where
  "saveConfigAndNotify t s =
     call (BeeperConfirmationBeeps 1) (snd (readEEPROM t (writeEEPROM t s)))"

definition setConfigDirty :: "state \<Rightarrow> state" where
  "setConfigDirty s = s\<lparr>configIsDirty := True\<rparr>"

definition isConfigDirty :: "state \<Rightarrow> bool" where
  "isConfigDirty s = configIsDirty s"

definition isSystemConfigured :: "state \<Rightarrow> bool" where
  "isSystemConfigured s =
     (configurationState (systemConfig (config s)) = CONFIGURATION_STATE_CONFIGURED)"

subsection \<open>Reboot required\<close>

text \<open>
  Modelled from the spec: \<^verbatim>\<open>setArmingDisabled\<close> (fc/runtime_config.c, not part of this file)
  sets the given arming-disabled flag.
\<close>

definition setArmingDisabled :: "armingDisableFlags_e \<Rightarrow> state \<Rightarrow> state" where
  "setArmingDisabled flag s =
     call (SetArmingDisabled flag) (s\<lparr>armingDisableFlags := insert flag (armingDisableFlags s)\<rparr>)"

definition setRebootRequired :: "state \<Rightarrow> state" where
  "setRebootRequired s = setArmingDisabled ARMING_DISABLED_REBOOT_REQUIRED (s\<lparr>rebootRequired := True\<rparr>)"

definition getRebootRequired :: "state \<Rightarrow> bool" where
  "getRebootRequired s = rebootRequired s"

subsection \<open>The operations of the module\<close>

text \<open>
  Every function of the file that can change the state, as an operation with its
  arguments; \<open>exec\<close> runs one and \<open>run\<close> a sequence. The result is \<open>None\<close> when the
  profile scan does not return.
\<close>

datatype operation =
    ResetConfig
  | ValidateAndFixGyroConfig
  | ReadEEPROM
  | WriteUnmodifiedConfigToEEPROM
  | WriteEEPROM
  | WriteEEPROMWithFeatures "feature set"
  | ResetEEPROM bool
  | EnsureEEPROMStructureIsValid
  | SaveConfigAndNotify
  | SetConfigDirty
  | ChangePidProfileFromCellCount "8 word"
  | ChangePidProfile "8 word"
  | SetRebootRequired

fun exec :: "target \<Rightarrow> operation \<Rightarrow> state \<Rightarrow> state option" where
  "exec t ResetConfig s = Some (resetConfig t s)"
| "exec t ValidateAndFixGyroConfig s = Some (validateAndFixGyroConfig t s)"
| "exec t ReadEEPROM s = Some (snd (readEEPROM t s))"
| "exec t WriteUnmodifiedConfigToEEPROM s = Some (writeUnmodifiedConfigToEEPROM t s)"
| "exec t WriteEEPROM s = Some (writeEEPROM t s)"
| "exec t (WriteEEPROMWithFeatures features) s = Some (writeEEPROMWithFeatures t features s)"
| "exec t (ResetEEPROM useCustomDefaults) s = Some (snd (resetEEPROM t useCustomDefaults s))"
| "exec t EnsureEEPROMStructureIsValid s = Some (ensureEEPROMStructureIsValid t s)"
| "exec t SaveConfigAndNotify s = Some (saveConfigAndNotify t s)"
| "exec t SetConfigDirty s = Some (setConfigDirty s)"
| "exec t (ChangePidProfileFromCellCount cellCount) s = changePidProfileFromCellCount t cellCount s"
| "exec t (ChangePidProfile i) s = Some (changePidProfile i s)"
| "exec t SetRebootRequired s = Some (setRebootRequired s)"

fun run :: "target \<Rightarrow> operation list \<Rightarrow> state \<Rightarrow> state option" where
  "run t [] s = Some s"
| "run t (x # xs) s = (case exec t x s of None \<Rightarrow> None | Some s' \<Rightarrow> run t xs s')"

section \<open>The specification's reading of the profile scan\<close>

text \<open>
  The slots after the active one in circular order, each other slot once; the scan as a
  pass over such a list; and the choice the specification describes: the first slot of
  the order tagged with the cell count, else the first tagged \<open>Stay\<close>, else none.
\<close>

definition scanOrder :: "nat \<Rightarrow> nat \<Rightarrow> nat list" where
  "scanOrder n cur = map (\<lambda>k. (cur + 1 + k) mod n) [0..<n - 1]"

fun scanList ::
  "target \<Rightarrow> pidProfile_t list \<Rightarrow> 8 word \<Rightarrow> nat list \<Rightarrow> int \<Rightarrow> nat list \<Rightarrow> int \<times> nat list"
where
  "scanList t ps cellCount [] m visited = (m, visited)"
| "scanList t ps cellCount (i # slots) m visited =
     (if auto_profile_cell_count (ps ! i) = uint cellCount then (int i, visited @ [i])
      else scanList t ps cellCount slots
             (if m < 0 \<and> auto_profile_cell_count (ps ! i) = AUTO_PROFILE_CELL_COUNT_STAY t
              then int i else m)
             (visited @ [i]))"

definition cellCountChoice :: "target \<Rightarrow> pidProfile_t list \<Rightarrow> nat \<Rightarrow> 8 word \<Rightarrow> nat option" where
  "cellCountChoice t ps cur cellCount =
     (case find (\<lambda>i. auto_profile_cell_count (ps ! i) = uint cellCount) (scanOrder (length ps) cur) of
        Some i \<Rightarrow> Some i
      | None \<Rightarrow>
          find (\<lambda>i. auto_profile_cell_count (ps ! i) = AUTO_PROFILE_CELL_COUNT_STAY t)
            (scanOrder (length ps) cur))"

section \<open>An example target and configuration\<close>

text \<open>
  A DShot-capable flight controller with the usual receiver drivers, and a configuration
  with four PID profiles tagged \<open>[Stay, 4, Stay, 6]\<close>. The concrete statements below are
  evaluated on them.
\<close>

definition exampleTarget :: target where
  "exampleTarget =
     \<lparr> defined = {USE_SERVOS, USE_GPS, USE_DYN_LPF, USE_RX_SPI, USE_ADC, USE_PWM, USE_PPM,
                  USE_THROTTLE_BOOST, USE_GPS_RESCUE, USE_ESC_SENSOR, USE_DSHOT_TELEMETRY,
                  USE_DSHOT_BITBANG, USE_SERIAL_RX, USE_SOFTSERIAL1, USE_TELEMETRY, USE_RX_MSP,
                  USE_LED_STRIP, USE_OSD, USE_GYRO_DATA_ANALYSE, USE_BEEPER, USE_TIMER, USE_DSHOT,
                  USE_VTX_COMMON, USE_VTX_TABLE, USE_BLACKBOX, USE_FLASHFS, USE_ACC},
       FILTER_FREQUENCY_MAX = 4000,
       MAX_AUTO_DETECT_CELL_COUNT = 8,
       AUTO_PROFILE_CELL_COUNT_CHANGE = - 1,
       AUTO_PROFILE_CELL_COUNT_STAY = 0,
       BRUSHLESS_MOTORS_PWM_RATE = 480,
       MAX_PID_PROCESS_DENOM = 16,
       DEFAULT_RX_FEATURE = {FEATURE_RX_PARALLEL_PWM},
       CONTROL_RATE_PROFILE_COUNT = 6,
       BLACKBOX_DEVICE_NONE = 0,
       BEEPER_ALLOWED_MODES = 0xFFFFFF,
       DSHOT_BEACON_ALLOWED_MODES = 0x300,
       DSHOT_CMD_BEACON1 = 1,
       DSHOT_CMD_BEACON5 = 5,
       OSD_TIMER_SRC_COUNT = 4,
       OSD_TIMER_PREC_COUNT = 3,
       osdTimerDefault = [0, 0],
       BOXARM = 0,
       BOXGPSRESCUE = 46,
       HZ_TO_INTERVAL_US = (\<lambda>x. 1000000 div x),
       intOfInfinity = 2147483647,
       pwmTypeValue =
         (\<lambda>p. case p of
                PWM_TYPE_STANDARD \<Rightarrow> 0 | PWM_TYPE_ONESHOT125 \<Rightarrow> 1 | PWM_TYPE_ONESHOT42 \<Rightarrow> 2
              | PWM_TYPE_BRUSHED \<Rightarrow> 4 | PWM_TYPE_DSHOT150 \<Rightarrow> 5 | PWM_TYPE_DSHOT300 \<Rightarrow> 6
              | PWM_TYPE_DSHOT600 \<Rightarrow> 7 | PWM_TYPE_PROSHOT1000 \<Rightarrow> 8 | PWM_TYPE_OTHER n \<Rightarrow> n),
       mixers_motorCount = (\<lambda>m. 4),
       mixers_motor_NULL = (\<lambda>m. False),
       mixers_useServo = (\<lambda>m. False),
       servoMixers_servoRuleCount = (\<lambda>m. 0),
       isSerialConfigValid = (\<lambda>ports. True),
       pgResetFn_serialConfig = (\<lambda>ports. []),
       findSerialPortConfig =
         (\<lambda>ports f. find (\<lambda>p. functionMask p AND
                                 (case f of FUNCTION_GPS \<Rightarrow> 2 | FUNCTION_ESC_SENSOR \<Rightarrow> 1024) \<noteq> 0)
                       ports),
       buildAlignmentFromStandardAlignment = (\<lambda>custom standard. custom),
       rcSmoothingIsEnabled = (\<lambda>rx. True),
       isModeActivationConditionPresent = (\<lambda>macs box. \<exists>m \<in> set macs. modeId m = box),
       isModeActivationConditionLinked =
         (\<lambda>macs box. \<exists>m \<in> set macs. modeId m = box \<and> linkedTo m \<noteq> 0),
       removeModeActivationCondition =
         (\<lambda>box macs. filter (\<lambda>m. modeId m \<noteq> box) macs
                      @ replicate (length (filter (\<lambda>m. modeId m = box) macs))
                          \<lparr>modeId = 0, linkedTo = 0\<rparr>),
       timerGetByTag = (\<lambda>tag. True),
       OSD_TIMER_SRC = (\<lambda>tm. unat (tm AND 0x0F)),
       OSD_TIMER_PRECISION = (\<lambda>tm. unat (drop_bit 4 tm AND 0x0F)),
       targetValidateConfiguration = (\<lambda>c. c),
       pgResetAll = (\<lambda>c. c),
       targetConfiguration = (\<lambda>c. c),
       resetConfigToCustomDefaults = (\<lambda>c. (False, c)),
       loadEEPROM = (\<lambda>bytes c. (bytes \<noteq> [], c)),
       writeConfigToEEPROM = (\<lambda>c bytes. [1]),
       isEEPROMStructureValid = (\<lambda>bytes. bytes \<noteq> []) \<rparr>"

definition exampleProfile :: "int \<Rightarrow> pidProfile_t" where
  "exampleProfile cells =
     \<lparr> pid = replicate 5 \<lparr>pid_P = 40, pid_I = 80, pid_D = 30, pid_F = 60\<rparr>,
       d_min = [20, 22, 0],
       dterm_lowpass_hz = 150,
       dterm_lowpass2_hz = 150,
       dterm_notch_hz = 0,
       dterm_notch_cutoff = 0,
       dyn_lpf_dterm_min_hz = 70,
       dyn_lpf_dterm_max_hz = 170,
       motor_output_limit = 100,
       auto_profile_cell_count = cells,
       throttle_boost = 5 \<rparr>"

definition exampleConfig :: config where
  "exampleConfig =
     \<lparr> enabledFeatures = {FEATURE_RX_SERIAL, FEATURE_OSD},
       mixerMode = MIXER_OTHER 3,
       serialConfig = [\<lparr>port_identifier = 0, functionMask = 64\<rparr>],
       gps_provider = GPS_PROVIDER_OTHER 0,
       pidProfiles = map exampleProfile [0, 4, 0, 6],
       systemConfig =
         \<lparr> pidProfileIndex = 0, activeRateProfile = 0,
           configurationState = CONFIGURATION_STATE_CONFIGURED,
           schedulerOptimizeRate = SCHEDULER_OPTIMIZE_RATE_AUTO \<rparr>,
       motorConfig =
         \<lparr> dev_motorPwmProtocol = PWM_TYPE_DSHOT600, dev_motorPwmRate = 480,
           dev_useUnsyncedPwm = False, dev_useDshotTelemetry = False,
           dev_useDshotBitbang = DSHOT_BITBANG_AUTO, dev_useBurstDshot = False,
           mincommand = 1000, minthrottle = 1070 \<rparr>,
       gyroConfig =
         \<lparr> gyro_lowpass_hz = 200, gyro_lowpass2_hz = 250,
           gyro_soft_notch_hz_1 = 0, gyro_soft_notch_cutoff_1 = 0,
           gyro_soft_notch_hz_2 = 0, gyro_soft_notch_cutoff_2 = 0,
           dyn_lpf_gyro_min_hz = 200, dyn_lpf_gyro_max_hz = 500,
           gyro_hardware_lpf = GYRO_HARDWARE_LPF_OTHER 0, gyro_sync_denom = 1 \<rparr>,
       pid_process_denom = 1,
       rxConfig =
         \<lparr> rssi_channel = 0, rssi_src_frame_errors = False,
           rcInterpolationChannels = INTERPOLATION_CHANNELS_RPYT, rc_smoothing = [] \<rparr>,
       mag_alignment = 0,
       mag_customAlignment = \<lparr>align_roll = 0, align_pitch = 0, align_yaw = 0\<rparr>,
       gyro_alignment = [0, 0],
       gyro_customAlignment =
         [\<lparr>align_roll = 0, align_pitch = 0, align_yaw = 0\<rparr>,
          \<lparr>align_roll = 0, align_pitch = 0, align_yaw = 0\<rparr>],
       voltageMeterSource = VOLTAGE_METER_OTHER 1,
       currentMeterSource = CURRENT_METER_ADC,
       failsafe_procedure = FAILSAFE_PROCEDURE_DROP_IT,
       modeActivationConditions = [\<lparr>modeId = 0, linkedTo = 0\<rparr>, \<lparr>modeId = 1, linkedTo = 0\<rparr>],
       beeperConfig = \<lparr>beeper_off_flags = 0, dshotBeaconOffFlags = 0, dshotBeaconTone = 1\<rparr>,
       beeperDevConfig = \<lparr>frequency = 0, ioTag = 0\<rparr>,
       osd_timers = [0, 0],
       vtxSettingsConfig = \<lparr>band = 0, channel = 0, power_vtx = 0, freq = 0\<rparr>,
       vtxTableConfig = \<lparr>bands = 5, channels = 8, powerLevels = 4\<rparr>,
       blackbox_device = 1,
       throttle_correction_angle = 800,
       throttle_correction_value = 0,
       accZero = [0, 0, 0] \<rparr>"

definition exampleState :: state where
  "exampleState =
     \<lparr> config = exampleConfig,
       configIsDirty = False,
       rebootRequired = False,
       currentPidProfile = 0,
       currentControlRateProfile = 0,
       gyro_targetLooptime = 125,
       gyroMpuDetectionResult_sensor = MPU_SENSOR_OTHER 0,
       armingDisableFlags = {},
       rxSuspendCount = 0,
       eeprom = [1],
       calls = [] \<rparr>"

text \<open>The example state with PID profiles of the given cell-count tags.\<close>

definition exampleStateTagged :: "int list \<Rightarrow> state" where
  "exampleStateTagged tags =
     exampleState\<lparr>config := exampleConfig\<lparr>pidProfiles := map exampleProfile tags\<rparr>\<rparr>"


text \<open>No receiver-input feature enabled, and three of them enabled at once.\<close>

definition exampleNoRxState :: state where
  "exampleNoRxState = exampleState\<lparr>config := exampleConfig\<lparr>enabledFeatures := {FEATURE_OSD}\<rparr>\<rparr>"

definition exampleManyRxState :: state where
  "exampleManyRxState =
     exampleState\<lparr>config := exampleConfig\<lparr>enabledFeatures :=
       {FEATURE_RX_SPI, FEATURE_RX_MSP, FEATURE_RX_PARALLEL_PWM, FEATURE_OSD}\<rparr>\<rparr>"

text \<open>
  The example target without the parallel-PWM driver, and with soft SPI; a configuration
  with no receiver feature that enables \<open>FEATURE_SOFTSPI\<close>.
\<close>

definition exampleNoPwmTarget :: target where
  "exampleNoPwmTarget = exampleTarget\<lparr>defined := defined exampleTarget - {USE_PWM}\<rparr>"

definition exampleSoftSpiTarget :: target where
  "exampleSoftSpiTarget = exampleTarget\<lparr>defined := insert USE_SOFTSPI (defined exampleTarget)\<rparr>"

definition exampleSoftSpiState :: state where
  "exampleSoftSpiState =
     exampleState\<lparr>config := exampleConfig\<lparr>enabledFeatures := {FEATURE_SOFTSPI, FEATURE_OSD}\<rparr>\<rparr>"

text \<open>
  The example configuration with the protocol DSHOT150, the given unsynced-PWM flag and
  \<open>pid_process_denom\<close>, and the example state with it and a given call log.
\<close>

definition timingConfig :: "bool \<Rightarrow> 8 word \<Rightarrow> config" where
  "timingConfig unsynced denom =
     exampleConfig\<lparr>motorConfig :=
       (motorConfig exampleConfig)\<lparr>dev_motorPwmProtocol := PWM_TYPE_DSHOT150,
                                  dev_useUnsyncedPwm := unsynced\<rparr>,
       pid_process_denom := denom\<rparr>"

definition timingState :: "bool \<Rightarrow> 8 word \<Rightarrow> call list \<Rightarrow> state" where
  "timingState unsynced denom made =
     exampleState\<lparr>config := timingConfig unsynced denom, calls := made\<rparr>"


section \<open>Notions used in the statements\<close>

text \<open>
  The calls that suspend or resume receiver-signal sampling or access the store: the
  calls whose order claim C8 is about.
\<close>

fun storageOrSignalCall :: "call \<Rightarrow> bool" where
  "storageOrSignalCall SuspendRxPwmPpmSignal = True"
| "storageOrSignalCall ResumeRxPwmPpmSignal = True"
| "storageOrSignalCall (LoadEEPROM ok) = True"
| "storageOrSignalCall WriteConfigToEEPROM = True"
| "storageOrSignalCall e = False"

text \<open>
  The two values that \<open>setRebootRequired\<close> sets, as a pair, and the state of a pending
  reboot.
\<close>

definition guards :: "state \<Rightarrow> bool \<times> armingDisableFlags_e set" where
  "guards s = (rebootRequired s, armingDisableFlags s)"

definition rebootPending :: "state \<Rightarrow> bool" where
  "rebootPending s = (getRebootRequired s \<and> ARMING_DISABLED_REBOOT_REQUIRED \<in> armingDisableFlags s)"

text \<open>
  The target's validation hook is code of the target, not of this file. A statement about
  a field of the configuration after \<open>validateAndFixConfig\<close> assumes that the hook, in a
  build that has one, returns that field as it found it.
\<close>

definition hookKeeps :: "target \<Rightarrow> (config \<Rightarrow> 'a) \<Rightarrow> bool" where
  "hookKeeps t field =
     (TARGET_VALIDATECONFIG \<in> defined t \<longrightarrow> (\<forall>c. field (targetValidateConfiguration t c) = field c))"

text \<open>
  The receiver-input features. The driver of one of them is compiled in when its macro is
  defined; the pruning at the end of \<open>validateAndFixConfig\<close> clears each feature whose
  driver is not. The soft-SPI rule clears PPM and parallel PWM when the build has soft SPI
  and the configuration enables it.
\<close>

definition rxFeatures :: "feature set" where
  "rxFeatures = {FEATURE_RX_PPM, FEATURE_RX_PARALLEL_PWM, FEATURE_RX_SERIAL, FEATURE_RX_MSP,
                 FEATURE_RX_SPI}"

definition rxCompiled :: "target \<Rightarrow> feature \<Rightarrow> bool" where
  "rxCompiled t d =
     (case d of
        FEATURE_RX_PPM \<Rightarrow> USE_PPM \<in> defined t
      | FEATURE_RX_PARALLEL_PWM \<Rightarrow> USE_PWM \<in> defined t
      | FEATURE_RX_SERIAL \<Rightarrow> USE_SERIAL_RX \<in> defined t
      | FEATURE_RX_MSP \<Rightarrow> USE_RX_MSP \<in> defined t
      | FEATURE_RX_SPI \<Rightarrow> USE_RX_SPI \<in> defined t
      | _ \<Rightarrow> False)"

definition softSpiClears :: "target \<Rightarrow> config \<Rightarrow> feature \<Rightarrow> bool" where
  "softSpiClears t c d =
     (USE_SOFTSPI \<in> defined t \<and> FEATURE_SOFTSPI \<in> enabledFeatures c
      \<and> (d = FEATURE_RX_PPM \<or> d = FEATURE_RX_PARALLEL_PWM))"

text \<open>The notch of a profile is consistent: disabled, or with its cutoff below its centre.\<close>

definition notchConsistent :: "pidProfile_t \<Rightarrow> bool" where
  "notchConsistent p = (dterm_notch_hz p > 0 \<longrightarrow> dterm_notch_cutoff p < dterm_notch_hz p)"

section \<open>Proofs\<close>

subsection \<open>Switching the PID profile\<close>

lemma call_simps [simp]:
  "config (call e s) = config s" "calls (call e s) = calls s @ [e]"
  "currentPidProfile (call e s) = currentPidProfile s"
  "currentControlRateProfile (call e s) = currentControlRateProfile s"
  "rebootRequired (call e s) = rebootRequired s"
  "armingDisableFlags (call e s) = armingDisableFlags s"
  "rxSuspendCount (call e s) = rxSuspendCount s"
  "configIsDirty (call e s) = configIsDirty s"
  "eeprom (call e s) = eeprom s"
  "gyro_targetLooptime (call e s) = gyro_targetLooptime s"
  "gyroMpuDetectionResult_sensor (call e s) = gyroMpuDetectionResult_sensor s"
  by (simp_all add: call_def)

text \<open>
  Claim C9. \<open>changePidProfile\<close> with an index at or beyond \<open>PID_PROFILE_COUNT\<close> changes
  nothing but the call log, to which it appends the confirmation beep with argument
  \<open>index + 1\<close>; the active index and the current-profile pointer stay as they were. With
  an index in range it writes the index, repoints the pointer at that slot, re-initialises
  the PID controller with it and the ESC endpoints, and then emits the beep with
  argument \<open>index + 1\<close>.
\<close>

theorem changePidProfile_spec:
  "(PID_PROFILE_COUNT (config s) \<le> unat i \<longrightarrow>
      changePidProfile i s = call (BeeperConfirmationBeeps (unat i + 1)) s
      \<and> pidProfileIndex (systemConfig (config (changePidProfile i s)))
          = pidProfileIndex (systemConfig (config s))
      \<and> currentPidProfile (changePidProfile i s) = currentPidProfile s
      \<and> calls (changePidProfile i s) = calls s @ [BeeperConfirmationBeeps (unat i + 1)])
   \<and> (unat i < PID_PROFILE_COUNT (config s) \<longrightarrow>
      pidProfileIndex (systemConfig (config (changePidProfile i s))) = i
      \<and> currentPidProfile (changePidProfile i s) = unat i
      \<and> calls (changePidProfile i s)
          = calls s @ [PidInit (unat i), InitEscEndpoints, BeeperConfirmationBeeps (unat i + 1)])"
  by (simp add: changePidProfile_def loadPidProfile_def Let_def)

subsection \<open>The profile scan\<close>

lemma scanOrder_nth:
  assumes "k < n - 1"
  shows "drop k (scanOrder n cur) = ((cur + 1 + k) mod n) # drop (Suc k) (scanOrder n cur)"
proof -
  have "k < length (scanOrder n cur)" using assms by (simp add: scanOrder_def)
  then have "drop k (scanOrder n cur) = scanOrder n cur ! k # drop (Suc k) (scanOrder n cur)"
    by (rule Cons_nth_drop_Suc[symmetric])
  moreover have "scanOrder n cur ! k = (cur + 1 + k) mod n"
    using assms by (simp add: scanOrder_def)
  ultimately show ?thesis by simp
qed

lemma scan_back_iff:
  fixes n :: nat
  assumes "cur < n" "k \<le> n - 1"
  shows "((cur + 1 + k) mod n = cur) = (k = n - 1)"
proof
  assume "k = n - 1"
  with assms have "cur + 1 + k = cur + n" by arith
  then have "(cur + 1 + k) mod n = (cur + n) mod n" by (rule arg_cong)
  also have "\<dots> = cur" using assms by simp
  finally show "(cur + 1 + k) mod n = cur" .
next
  assume h: "(cur + 1 + k) mod n = cur"
  show "k = n - 1"
  proof (rule ccontr)
    assume "k \<noteq> n - 1"
    with assms have k: "k + 1 < n" by arith
    show False
    proof (cases "cur + 1 + k < n")
      case True with h show False by simp
    next
      case False
      with assms k have "(cur + 1 + k) mod n = cur + 1 + k - n"
        by (simp add: mod_if)
      with h False k show False by arith
    qed
  qed
qed

lemma scanOrder_inj:
  fixes n :: nat
  assumes c: "cur < n" and x: "x < n - 1" and y: "y < n - 1"
    and e: "(cur + 1 + x) mod n = (cur + 1 + y) mod n"
  shows "x = y"
proof -
  have mx: "(cur + 1 + x) mod n = (if cur + 1 + x < n then cur + 1 + x else cur + 1 + x - n)"
    using c x by (auto simp: mod_if)
  have my: "(cur + 1 + y) mod n = (if cur + 1 + y < n then cur + 1 + y else cur + 1 + y - n)"
    using c y by (auto simp: mod_if)
  from e mx my c x y show ?thesis by (auto split: if_splits)
qed

lemma scanOrder_distinct:
  assumes c: "cur < n"
  shows "distinct (scanOrder n cur) \<and> cur \<notin> set (scanOrder n cur) \<and> set (scanOrder n cur) \<subseteq> {0..<n}"
proof (intro conjI)
  have "inj_on (\<lambda>k. (cur + 1 + k) mod n) {0..<n - 1}"
    by (rule inj_onI) (use scanOrder_inj[OF c] in auto)
  then show "distinct (scanOrder n cur)" by (simp add: scanOrder_def distinct_map)
  show "cur \<notin> set (scanOrder n cur)"
  proof
    assume "cur \<in> set (scanOrder n cur)"
    then obtain k where k: "k < n - 1" and "(cur + 1 + k) mod n = cur"
      by (auto simp: scanOrder_def)
    with scan_back_iff[OF c, of k] show False by simp
  qed
  show "set (scanOrder n cur) \<subseteq> {0..<n}" using c by (auto simp: scanOrder_def)
qed

lemma scanPidProfiles_scanList:
  assumes "cur < length ps"
  shows "k \<le> length ps - 1 \<Longrightarrow>
    scanPidProfiles t ps cur cellCount ((cur + 1 + k) mod length ps) m visited
      = Some (scanList t ps cellCount (drop k (scanOrder (length ps) cur)) m visited)"
proof (induction "length ps - 1 - k" arbitrary: k m visited)
  case 0
  then have k: "k = length ps - 1" by simp
  have "drop k (scanOrder (length ps) cur) = []" by (simp add: k scanOrder_def)
  moreover have "(cur + 1 + k) mod length ps = cur"
    using scan_back_iff[OF assms, of k] k by simp
  ultimately show ?case by (subst scanPidProfiles.simps) simp
next
  case (Suc d)
  then have k: "k < length ps - 1" by simp
  then have ne: "(cur + 1 + k) mod length ps \<noteq> cur"
    using scan_back_iff[OF assms, of k] by simp
  have step: "((cur + 1 + k) mod length ps + 1) mod length ps = (cur + 1 + Suc k) mod length ps"
    by (simp add: mod_simps)
  have ih: "\<And>m visited. scanPidProfiles t ps cur cellCount ((cur + 1 + Suc k) mod length ps) m visited
      = Some (scanList t ps cellCount (drop (Suc k) (scanOrder (length ps) cur)) m visited)"
    using Suc(1)[of "Suc k"] Suc(2) k by simp
  show ?case
    apply (subst scanPidProfiles.simps)
    apply (simp only: scanOrder_nth[OF k] ne step ih)
    apply simp
    done
qed

lemma scanList_fst:
  "fst (scanList t ps cellCount slots m visited) =
     (case find (\<lambda>i. auto_profile_cell_count (ps ! i) = uint cellCount) slots of
        Some i \<Rightarrow> int i
      | None \<Rightarrow>
          if m < 0 then
            (case find (\<lambda>i. auto_profile_cell_count (ps ! i) = AUTO_PROFILE_CELL_COUNT_STAY t) slots of
               Some i \<Rightarrow> int i | None \<Rightarrow> m)
          else m)"
  by (induction slots arbitrary: m visited) (auto split: option.splits)

lemma scanList_snd:
  "\<exists>n. snd (scanList t ps cellCount slots m visited) = visited @ take n slots"
proof (induction slots arbitrary: m visited)
  case Nil show ?case by simp
next
  case (Cons i slots)
  show ?case
  proof (cases "auto_profile_cell_count (ps ! i) = uint cellCount")
    case True
    then have "snd (scanList t ps cellCount (i # slots) m visited) = visited @ take 1 (i # slots)" by simp
    then show ?thesis by blast
  next
    case False
    obtain n where "snd (scanList t ps cellCount slots
             (if m < 0 \<and> auto_profile_cell_count (ps ! i) = AUTO_PROFILE_CELL_COUNT_STAY t
              then int i else m) (visited @ [i])) = (visited @ [i]) @ take n slots"
      using Cons.IH by blast
    with False have "snd (scanList t ps cellCount (i # slots) m visited) = visited @ take (Suc n) (i # slots)"
      by simp
    then show ?thesis by blast
  qed
qed

lemma scan_result:
  assumes "idx < length ps"
  shows "scanPidProfiles t ps idx cellCount ((idx + 1) mod length ps) (- 1) []
           = Some (scanList t ps cellCount (scanOrder (length ps) idx) (- 1) [])"
  using scanPidProfiles_scanList[OF assms, of 0 t cellCount "- 1" "[]"] by simp

lemma scanList_choice:
  "fst (scanList t ps cellCount (scanOrder (length ps) idx) (- 1) []) =
     (case cellCountChoice t ps idx cellCount of Some j \<Rightarrow> int j | None \<Rightarrow> - 1)"
  by (simp add: scanList_fst cellCountChoice_def split: option.splits)

lemma cellCountChoice_range:
  assumes "idx < length ps" "cellCountChoice t ps idx cellCount = Some j"
  shows "j < length ps \<and> j \<noteq> idx"
proof -
  from assms(2) have "j \<in> set (scanOrder (length ps) idx)"
    by (auto simp: cellCountChoice_def find_Some_iff split: option.splits)
  with scanOrder_distinct[OF assms(1)] show ?thesis by auto
qed

text \<open>
  Claim C5. \<open>changePidProfileFromCellCount\<close> returns the state unchanged when the tag of
  the current profile is the cell count or \<open>Stay\<close>. Otherwise, when the active index is in
  range, it returns, and the result is the switch (by \<open>changePidProfile\<close>) to the first
  slot in circular order after the active one whose tag is the cell count, else to the
  first such slot tagged \<open>Stay\<close>, else the unchanged state; with at most 256 profiles the
  switch makes that slot the active index and the target of the pointer. The slots the
  loop reads are an initial part of that circular order: each other slot at most once,
  never the active one.
\<close>

theorem changePidProfileFromCellCount_scan:
  "(let ps = pidProfiles (config s);
        idx = unat (pidProfileIndex (systemConfig (config s)));
        tag = auto_profile_cell_count (ps ! currentPidProfile s)
    in (tag = uint cellCount \<or> tag = AUTO_PROFILE_CELL_COUNT_STAY t
          \<longrightarrow> changePidProfileFromCellCount t cellCount s = Some s)
       \<and> (tag \<noteq> uint cellCount \<and> tag \<noteq> AUTO_PROFILE_CELL_COUNT_STAY t \<and> idx < length ps \<longrightarrow>
            changePidProfileFromCellCount t cellCount s
              = Some (case cellCountChoice t ps idx cellCount of
                        Some j \<Rightarrow> changePidProfile (of_nat j) s
                      | None \<Rightarrow> s)
            \<and> (\<forall>j. cellCountChoice t ps idx cellCount = Some j \<and> length ps \<le> 256 \<longrightarrow>
                  unat (pidProfileIndex (systemConfig (config (changePidProfile (of_nat j) s)))) = j
                  \<and> currentPidProfile (changePidProfile (of_nat j) s) = j)
            \<and> (\<exists>m visited n.
                  scanPidProfiles t ps idx cellCount ((idx + 1) mod length ps) (- 1) []
                    = Some (m, visited)
                  \<and> visited = take n (scanOrder (length ps) idx)
                  \<and> distinct visited \<and> idx \<notin> set visited)))"
proof -
  define ps where "ps = pidProfiles (config s)"
  define idx where "idx = unat (pidProfileIndex (systemConfig (config s)))"
  define tag where "tag = auto_profile_cell_count (ps ! currentPidProfile s)"
  have noop: "tag = uint cellCount \<or> tag = AUTO_PROFILE_CELL_COUNT_STAY t
      \<Longrightarrow> changePidProfileFromCellCount t cellCount s = Some s"
    by (auto simp: changePidProfileFromCellCount_def Let_def tag_def ps_def)
  have scan: "changePidProfileFromCellCount t cellCount s
              = Some (case cellCountChoice t ps idx cellCount of
                        Some j \<Rightarrow> changePidProfile (of_nat j) s
                      | None \<Rightarrow> s)"
    if h: "tag \<noteq> uint cellCount" "tag \<noteq> AUTO_PROFILE_CELL_COUNT_STAY t" "idx < length ps"
  proof -
    obtain m visited where mv: "scanList t ps cellCount (scanOrder (length ps) idx) (- 1) [] = (m, visited)"
      by (cases "scanList t ps cellCount (scanOrder (length ps) idx) (- 1) []")
    have m: "m = (case cellCountChoice t ps idx cellCount of Some j \<Rightarrow> int j | None \<Rightarrow> - 1)"
      using scanList_choice[of t ps cellCount idx] mv by simp
    show ?thesis
      using h scan_result[OF h(3), of t cellCount] mv m
      by (simp add: changePidProfileFromCellCount_def Let_def tag_def[symmetric] ps_def[symmetric]
            idx_def[symmetric] PID_PROFILE_COUNT_def split: option.splits)
  qed
  have switch: "unat (pidProfileIndex (systemConfig (config (changePidProfile (of_nat j) s)))) = j
                  \<and> currentPidProfile (changePidProfile (of_nat j) s) = j"
    if h: "idx < length ps" "cellCountChoice t ps idx cellCount = Some j" "length ps \<le> 256" for j
  proof -
    have j: "j < length ps" using cellCountChoice_range[OF h(1) h(2)] by simp
    with h(3) have "j < 256" by simp
    then have u: "unat (of_nat j :: 8 word) = j" by (simp add: unat_of_nat)
    with j show ?thesis
      by (simp add: changePidProfile_def loadPidProfile_def Let_def PID_PROFILE_COUNT_def ps_def)
  qed
  have visits: "\<exists>m visited n.
                  scanPidProfiles t ps idx cellCount ((idx + 1) mod length ps) (- 1) []
                    = Some (m, visited)
                  \<and> visited = take n (scanOrder (length ps) idx)
                  \<and> distinct visited \<and> idx \<notin> set visited"
    if h: "idx < length ps"
  proof -
    obtain m visited where mv: "scanList t ps cellCount (scanOrder (length ps) idx) (- 1) [] = (m, visited)"
      by (cases "scanList t ps cellCount (scanOrder (length ps) idx) (- 1) []")
    obtain n where n: "visited = take n (scanOrder (length ps) idx)"
      using scanList_snd[of t ps cellCount "scanOrder (length ps) idx" "- 1" "[]"] mv by auto
    have "distinct visited" using scanOrder_distinct[OF h] n by simp
    moreover have "idx \<notin> set visited"
      using scanOrder_distinct[OF h] n by (auto dest: in_set_takeD)
    ultimately show ?thesis using scan_result[OF h, of t cellCount] mv n by auto
  qed
  show ?thesis
    unfolding Let_def ps_def[symmetric] idx_def[symmetric] tag_def[symmetric]
    using noop scan switch visits by blast
qed


lemma exampleTarget_simps:
  "AUTO_PROFILE_CELL_COUNT_STAY exampleTarget = 0"
  "MAX_PID_PROCESS_DENOM exampleTarget = 16"
  "CONTROL_RATE_PROFILE_COUNT exampleTarget = 6"
  by (simp_all add: exampleTarget_def)

lemma exampleStateTagged_simps:
  "pidProfiles (config (exampleStateTagged tags)) = map exampleProfile tags"
  "pidProfileIndex (systemConfig (config (exampleStateTagged tags))) = 0"
  "currentPidProfile (exampleStateTagged tags) = 0"
  "calls (exampleStateTagged tags) = []"
  by (simp_all add: exampleStateTagged_def exampleState_def exampleConfig_def)

lemma exampleProfile_tag: "auto_profile_cell_count (exampleProfile c) = c"
  by (simp add: exampleProfile_def)

lemma example_choices:
  "cellCountChoice exampleTarget [exampleProfile 5, exampleProfile 4, exampleProfile 0, exampleProfile 6] 0 6
     = Some 3"
  "cellCountChoice exampleTarget [exampleProfile 5, exampleProfile 4, exampleProfile 0, exampleProfile 6] 0 7
     = Some 2"
  "cellCountChoice exampleTarget [exampleProfile 5, exampleProfile 4, exampleProfile 3, exampleProfile 6] 0 7
     = None"
  by (simp_all add: cellCountChoice_def scanOrder_def upt_conv_Cons exampleProfile_tag
        exampleTarget_simps)

text \<open>
  Claim C5 on the example: a current profile tagged \<open>Stay\<close>; an exact match at slot 3; no
  exact match and a \<open>Stay\<close> profile at slot 2; neither.
\<close>

theorem changePidProfileFromCellCount_scan_witness:
  "changePidProfileFromCellCount exampleTarget 0 (exampleStateTagged [0, 4, 0, 6])
      = Some (exampleStateTagged [0, 4, 0, 6])
   \<and> changePidProfileFromCellCount exampleTarget 6 (exampleStateTagged [5, 4, 0, 6])
      = Some (changePidProfile 3 (exampleStateTagged [5, 4, 0, 6]))
   \<and> changePidProfileFromCellCount exampleTarget 7 (exampleStateTagged [5, 4, 0, 6])
      = Some (changePidProfile 2 (exampleStateTagged [5, 4, 0, 6]))
   \<and> changePidProfileFromCellCount exampleTarget 7 (exampleStateTagged [5, 4, 3, 6])
      = Some (exampleStateTagged [5, 4, 3, 6])"
  using changePidProfileFromCellCount_scan[of "exampleStateTagged [0, 4, 0, 6]" 0 exampleTarget]
    changePidProfileFromCellCount_scan[of "exampleStateTagged [5, 4, 0, 6]" 6 exampleTarget]
    changePidProfileFromCellCount_scan[of "exampleStateTagged [5, 4, 0, 6]" 7 exampleTarget]
    changePidProfileFromCellCount_scan[of "exampleStateTagged [5, 4, 3, 6]" 7 exampleTarget]
  by (simp add: exampleTarget_simps exampleStateTagged_simps exampleProfile_tag Let_def
        example_choices)

text \<open>Claim C9 on the example state: index 2 of four profiles, and the out-of-range index 7.\<close>

theorem changePidProfile_spec_witness:
  "pidProfileIndex (systemConfig (config (changePidProfile 2 (exampleStateTagged [0, 4, 0, 6])))) = 2
   \<and> currentPidProfile (changePidProfile 2 (exampleStateTagged [0, 4, 0, 6])) = 2
   \<and> calls (changePidProfile 2 (exampleStateTagged [0, 4, 0, 6]))
        = [PidInit 2, InitEscEndpoints, BeeperConfirmationBeeps 3]
   \<and> pidProfileIndex (systemConfig (config (changePidProfile 7 (exampleStateTagged [0, 4, 0, 6])))) = 0
   \<and> currentPidProfile (changePidProfile 7 (exampleStateTagged [0, 4, 0, 6])) = 0
   \<and> calls (changePidProfile 7 (exampleStateTagged [0, 4, 0, 6])) = [BeeperConfirmationBeeps 8]"
  using changePidProfile_spec[of "exampleStateTagged [0, 4, 0, 6]" 2]
    changePidProfile_spec[of "exampleStateTagged [0, 4, 0, 6]" 7]
  by (simp add: exampleStateTagged_simps PID_PROFILE_COUNT_def)

text \<open>
  Claim C4 as stated fails. With the profiles tagged \<open>[Stay, 4, Stay, 6]\<close>, the active index
  0 and the cell count 6, the call returns the state unchanged, because the current
  profile is tagged \<open>Stay\<close>: the active index stays 0 and is not 3.
\<close>

theorem cellCount_6_from_Stay_counterexample:
  "map auto_profile_cell_count (pidProfiles (config (exampleStateTagged [0, 4, 0, 6])))
     = [AUTO_PROFILE_CELL_COUNT_STAY exampleTarget, 4, AUTO_PROFILE_CELL_COUNT_STAY exampleTarget, 6]
   \<and> pidProfileIndex (systemConfig (config (exampleStateTagged [0, 4, 0, 6]))) = 0
   \<and> currentPidProfile (exampleStateTagged [0, 4, 0, 6]) = 0
   \<and> changePidProfileFromCellCount exampleTarget 6 (exampleStateTagged [0, 4, 0, 6])
       = Some (exampleStateTagged [0, 4, 0, 6])
   \<and> pidProfileIndex (systemConfig (config (exampleStateTagged [0, 4, 0, 6]))) \<noteq> 3"
  by (simp add: changePidProfileFromCellCount_def Let_def exampleStateTagged_simps
        exampleProfile_tag exampleTarget_simps)

text \<open>
  Claim C4, amended. With the profiles tagged \<open>[c, 4, Stay, 6]\<close>, the active index 0 and the
  cell count 6: when \<open>c\<close> is \<open>Stay\<close> the call changes nothing; when \<open>c\<close> is a cell count
  other than 6 (and \<open>Stay\<close> is not the value 6) the call switches to slot 3, the exact
  match, passing over the \<open>Stay\<close> profile at slot 2.
\<close>

theorem cellCount_6_exact_match:
  assumes tags: "map auto_profile_cell_count (pidProfiles (config s))
                   = [c, 4, AUTO_PROFILE_CELL_COUNT_STAY t, 6]"
    and idx: "pidProfileIndex (systemConfig (config s)) = 0"
    and cur: "currentPidProfile s = 0"
  shows "(c = AUTO_PROFILE_CELL_COUNT_STAY t \<longrightarrow> changePidProfileFromCellCount t 6 s = Some s)
    \<and> (c \<noteq> 6 \<and> c \<noteq> AUTO_PROFILE_CELL_COUNT_STAY t \<and> AUTO_PROFILE_CELL_COUNT_STAY t \<noteq> 6 \<longrightarrow>
         changePidProfileFromCellCount t 6 s = Some (changePidProfile 3 s)
         \<and> pidProfileIndex (systemConfig (config (changePidProfile 3 s))) = 3
         \<and> currentPidProfile (changePidProfile 3 s) = 3)"
proof -
  from tags obtain p0 p1 p2 p3 where ps: "pidProfiles (config s) = [p0, p1, p2, p3]"
    and t0: "auto_profile_cell_count p0 = c" and t1: "auto_profile_cell_count p1 = 4"
    and t2: "auto_profile_cell_count p2 = AUTO_PROFILE_CELL_COUNT_STAY t"
    and t3: "auto_profile_cell_count p3 = 6"
    by (auto simp: map_eq_Cons_conv)
  have order: "scanOrder (length (pidProfiles (config s))) 0 = [1, 2, 3]"
    by (simp add: ps scanOrder_def upt_conv_Cons)
  have noop: "changePidProfileFromCellCount t 6 s = Some s" if "c = AUTO_PROFILE_CELL_COUNT_STAY t"
    using that by (simp add: changePidProfileFromCellCount_def Let_def ps cur t0)
  have scan: "scanPidProfiles t (pidProfiles (config s)) 0 6 (Suc 0) (- 1) []
                = Some (scanList t (pidProfiles (config s)) 6 [1, 2, 3] (- 1) [])"
    using scan_result[of 0 "pidProfiles (config s)" t 6] order by (simp add: ps)
  have switch: "changePidProfileFromCellCount t 6 s = Some (changePidProfile 3 s)"
    if "c \<noteq> 6" "c \<noteq> AUTO_PROFILE_CELL_COUNT_STAY t" "AUTO_PROFILE_CELL_COUNT_STAY t \<noteq> 6"
    using that scan
    by (simp add: changePidProfileFromCellCount_def Let_def cur idx t0 t1 t2 t3
          PID_PROFILE_COUNT_def ps)
  have after: "pidProfileIndex (systemConfig (config (changePidProfile 3 s))) = 3
         \<and> currentPidProfile (changePidProfile 3 s) = 3"
    by (simp add: changePidProfile_def loadPidProfile_def Let_def PID_PROFILE_COUNT_def ps)
  from noop switch after show ?thesis by blast
qed

text \<open>Claim C4, amended, on the example tags \<open>[Stay, 4, Stay, 6]\<close> and \<open>[5, 4, Stay, 6]\<close>.\<close>

theorem cellCount_6_exact_match_witness:
  "changePidProfileFromCellCount exampleTarget 6 (exampleStateTagged [0, 4, 0, 6])
     = Some (exampleStateTagged [0, 4, 0, 6])
   \<and> changePidProfileFromCellCount exampleTarget 6 (exampleStateTagged [5, 4, 0, 6])
     = Some (changePidProfile 3 (exampleStateTagged [5, 4, 0, 6]))
   \<and> pidProfileIndex (systemConfig (config (changePidProfile 3 (exampleStateTagged [5, 4, 0, 6])))) = 3"
  using cellCount_6_exact_match[of "exampleStateTagged [0, 4, 0, 6]" 0 exampleTarget]
    cellCount_6_exact_match[of "exampleStateTagged [5, 4, 0, 6]" 5 exampleTarget]
  by (simp add: exampleStateTagged_simps exampleProfile_tag exampleTarget_simps)

subsection \<open>Frames of the timing resolver\<close>

lemma guards_call [simp]: "guards (call e s) = guards s"
  by (simp add: guards_def)

lemma onConfig_simps [simp]:
  "config (onConfig f s) = f (config s)" "calls (onConfig f s) = calls s"
  "currentPidProfile (onConfig f s) = currentPidProfile s"
  "currentControlRateProfile (onConfig f s) = currentControlRateProfile s"
  "guards (onConfig f s) = guards s"
  "rxSuspendCount (onConfig f s) = rxSuspendCount s"
  "eeprom (onConfig f s) = eeprom s"
  "configIsDirty (onConfig f s) = configIsDirty s"
  "gyro_targetLooptime (onConfig f s) = gyro_targetLooptime s"
  "gyroMpuDetectionResult_sensor (onConfig f s) = gyroMpuDetectionResult_sensor s"
  by (simp_all add: onConfig_def guards_def)

lemma loadPidProfile_simps [simp]:
  "config (loadPidProfile s) = config s" "calls (loadPidProfile s) = calls s"
  "currentPidProfile (loadPidProfile s) = unat (pidProfileIndex (systemConfig (config s)))"
  "currentControlRateProfile (loadPidProfile s) = currentControlRateProfile s"
  "guards (loadPidProfile s) = guards s"
  "rxSuspendCount (loadPidProfile s) = rxSuspendCount s"
  "eeprom (loadPidProfile s) = eeprom s"
  by (simp_all add: loadPidProfile_def guards_def)

lemma loadControlRateProfile_simps [simp]:
  "config (loadControlRateProfile s) = config s"
  "calls (loadControlRateProfile s) = calls s @ [LoadControlRateProfile]"
  "currentPidProfile (loadControlRateProfile s) = currentPidProfile s"
  "currentControlRateProfile (loadControlRateProfile s)
     = unat (activeRateProfile (systemConfig (config s)))"
  "guards (loadControlRateProfile s) = guards s"
  "rxSuspendCount (loadControlRateProfile s) = rxSuspendCount s"
  "eeprom (loadControlRateProfile s) = eeprom s"
  by (simp_all add: loadControlRateProfile_def guards_def)

lemma feature_simps [simp]:
  "enabledFeatures (featureDisable fs c) = enabledFeatures c - fs"
  "enabledFeatures (featureEnable fs c) = enabledFeatures c \<union> fs"
  "pidProfiles (featureDisable fs c) = pidProfiles c"
  "pidProfiles (featureEnable fs c) = pidProfiles c"
  "systemConfig (featureDisable fs c) = systemConfig c"
  "systemConfig (featureEnable fs c) = systemConfig c"
  by (simp_all add: featureDisable_def featureEnable_def)

lemma gyro_blocks_pidProfiles [simp]:
  "pidProfiles (fixGyroFilters t l c) = pidProfiles c"
  "pidProfiles (fixGyroDenoms t c) = pidProfiles c"
  "pidProfiles (fixLooptime t sensor c) = pidProfiles c"
  "pidProfiles (fixBlackboxDevice t c) = pidProfiles c"
  "pidProfiles (fixActiveRateProfile t c) = pidProfiles c"
  "pidProfiles (fixPidProfileIndex c) = pidProfiles c"
  by (simp_all add: fixGyroFilters_def fixGyroDenoms_def fixLooptime_def fixBlackboxDevice_def
        fixActiveRateProfile_def fixPidProfileIndex_def Let_def)

lemma gyro_blocks_systemConfig [simp]:
  "systemConfig (fixGyroFilters t l c) = systemConfig c"
  "systemConfig (fixGyroDenoms t c) = systemConfig c"
  "systemConfig (fixLooptime t sensor c) = systemConfig c"
  "systemConfig (fixBlackboxDevice t c) = systemConfig c"
  by (simp_all add: fixGyroFilters_def fixGyroDenoms_def fixLooptime_def fixBlackboxDevice_def
        Let_def)

lemma gyro_blocks_features [simp]:
  "enabledFeatures (fixGyroFilters t l c) =
     (if USE_GYRO_DATA_ANALYSE \<in> defined t \<and> l > DYNAMIC_FILTER_MAX_SUPPORTED_LOOP_TIME t
      then enabledFeatures c - {FEATURE_DYNAMIC_FILTER} else enabledFeatures c)"
  "enabledFeatures (fixGyroDenoms t c) = enabledFeatures c"
  "enabledFeatures (fixLooptime t sensor c) = enabledFeatures c"
  "enabledFeatures (fixBlackboxDevice t c) = enabledFeatures c"
  "enabledFeatures (fixActiveRateProfile t c) = enabledFeatures c"
  "enabledFeatures (fixPidProfileIndex c) = enabledFeatures c"
  by (simp_all add: fixGyroFilters_def fixGyroDenoms_def fixLooptime_def fixBlackboxDevice_def
        fixActiveRateProfile_def fixPidProfileIndex_def Let_def)

lemma validateAndFixGyroConfig_frame [simp]:
  "guards (validateAndFixGyroConfig t s) = guards s"
  "rxSuspendCount (validateAndFixGyroConfig t s) = rxSuspendCount s"
  "eeprom (validateAndFixGyroConfig t s) = eeprom s"
  "calls (validateAndFixGyroConfig t s) = calls s @ [LoadControlRateProfile]"
  "pidProfiles (config (validateAndFixGyroConfig t s)) = pidProfiles (config s)"
  by (simp_all add: validateAndFixGyroConfig_def Let_def)

text \<open>
  Claim C7. With non-empty profile arrays, after \<open>validateAndFixGyroConfig\<close> the active
  rate-profile index is below \<open>CONTROL_RATE_PROFILE_COUNT\<close> and the PID-profile index below
  \<open>PID_PROFILE_COUNT\<close>; an index that was in range is kept and one that was not is 0; and both
  current-profile pointers point at the slots of the resulting indices.
\<close>

theorem validateAndFixGyroConfig_indices:
  assumes "0 < CONTROL_RATE_PROFILE_COUNT t" and "0 < PID_PROFILE_COUNT (config s)"
  shows "(let s' = validateAndFixGyroConfig t s;
              rate = activeRateProfile (systemConfig (config s));
              idx = pidProfileIndex (systemConfig (config s));
              rate' = activeRateProfile (systemConfig (config s'));
              idx' = pidProfileIndex (systemConfig (config s'))
          in unat rate' < CONTROL_RATE_PROFILE_COUNT t
             \<and> unat idx' < PID_PROFILE_COUNT (config s')
             \<and> rate' = (if unat rate < CONTROL_RATE_PROFILE_COUNT t then rate else 0)
             \<and> idx' = (if unat idx < PID_PROFILE_COUNT (config s) then idx else 0)
             \<and> currentControlRateProfile s' = unat rate'
             \<and> currentPidProfile s' = unat idx')"
  using assms
  by (simp add: validateAndFixGyroConfig_def Let_def fixActiveRateProfile_def
        fixPidProfileIndex_def PID_PROFILE_COUNT_def)

text \<open>
  Claim C7 on the example state with indices 9 and 200 (out of range) and with 3 and 5
  (in range: four PID profiles, six rate profiles).
\<close>

theorem validateAndFixGyroConfig_indices_witness:
  "unat (activeRateProfile (systemConfig (config (validateAndFixGyroConfig exampleTarget
      (onConfig (\<lambda>c. c\<lparr>systemConfig := (systemConfig c)\<lparr>pidProfileIndex := 9, activeRateProfile := 200\<rparr>\<rparr>)
         exampleState))))) = 0
   \<and> unat (pidProfileIndex (systemConfig (config (validateAndFixGyroConfig exampleTarget
      (onConfig (\<lambda>c. c\<lparr>systemConfig := (systemConfig c)\<lparr>pidProfileIndex := 9, activeRateProfile := 200\<rparr>\<rparr>)
         exampleState))))) = 0
   \<and> currentPidProfile (validateAndFixGyroConfig exampleTarget
      (onConfig (\<lambda>c. c\<lparr>systemConfig := (systemConfig c)\<lparr>pidProfileIndex := 9, activeRateProfile := 200\<rparr>\<rparr>)
         exampleState)) = 0
   \<and> pidProfileIndex (systemConfig (config (validateAndFixGyroConfig exampleTarget
      (onConfig (\<lambda>c. c\<lparr>systemConfig := (systemConfig c)\<lparr>pidProfileIndex := 3, activeRateProfile := 5\<rparr>\<rparr>)
         exampleState)))) = 3
   \<and> activeRateProfile (systemConfig (config (validateAndFixGyroConfig exampleTarget
      (onConfig (\<lambda>c. c\<lparr>systemConfig := (systemConfig c)\<lparr>pidProfileIndex := 3, activeRateProfile := 5\<rparr>\<rparr>)
         exampleState)))) = 5"
  using validateAndFixGyroConfig_indices[of exampleTarget
      "onConfig (\<lambda>c. c\<lparr>systemConfig := (systemConfig c)\<lparr>pidProfileIndex := 9, activeRateProfile := 200\<rparr>\<rparr>)
         exampleState"]
    validateAndFixGyroConfig_indices[of exampleTarget
      "onConfig (\<lambda>c. c\<lparr>systemConfig := (systemConfig c)\<lparr>pidProfileIndex := 3, activeRateProfile := 5\<rparr>\<rparr>)
         exampleState"]
  by (simp add: exampleTarget_simps PID_PROFILE_COUNT_def Let_def exampleState_def exampleConfig_def)

subsection \<open>Frames of the rule evaluator, activation and persistence\<close>

lemma forPidProfiles_fold:
  "fold (\<lambda>i ps. ps[i := f (ps ! i)]) [0..<n] ps = map f (take n ps) @ drop n ps"
proof (induction n)
  case 0 show ?case by simp
next
  case (Suc n)
  show ?case
  proof (cases "n < length ps")
    case True
    then have "drop n ps = ps ! n # drop (Suc n) ps" by (simp add: Cons_nth_drop_Suc)
    moreover from True have "(map f (take n ps) @ drop n ps) ! n = ps ! n"
      by (simp add: nth_append)
    ultimately show ?thesis using True Suc
      by (simp add: take_Suc_conv_app_nth list_update_append)
  next
    case False
    then show ?thesis using Suc by (simp add: list_update_beyond)
  qed
qed

lemma forPidProfiles_map [simp]: "pidProfiles (forPidProfiles f c) = map f (pidProfiles c)"
  by (simp add: forPidProfiles_def PID_PROFILE_COUNT_def forPidProfiles_fold)

lemma forPidProfiles_other [simp]:
  "enabledFeatures (forPidProfiles f c) = enabledFeatures c"
  "systemConfig (forPidProfiles f c) = systemConfig c"
  by (simp_all add: forPidProfiles_def)

lemma blocks_pidProfiles [simp]:
  "pidProfiles (fixMixerMode t c) = pidProfiles c"
  "pidProfiles (fixSerialConfig t c) = pidProfiles c"
  "pidProfiles (fixPidProfiles t c) = map (fixPidProfile t) (pidProfiles c)"
  "pidProfiles (fixBrushed c) = pidProfiles c"
  "pidProfiles (fixStandardPwmRate t c) = pidProfiles c"
  "pidProfiles (fixAlignments t c) = pidProfiles c"
  "pidProfiles (fixRxFeatures t c) = pidProfiles c"
  "pidProfiles (fixSoftSpi t c) = pidProfiles c"
  "pidProfiles (fixRssi t c) = pidProfiles c"
  "pidProfiles (fixGpsRescue t c) = pidProfiles c"
  "pidProfiles (fixEscSensor t c) = pidProfiles c"
  "pidProfiles (fixModeActivationConditions t c) = pidProfiles c"
  "pidProfiles (fixDshotBitbang t c) = pidProfiles c"
  "pidProfiles (disableUnless b fs c) = pidProfiles c"
  "pidProfiles (fixBeeper t c) = pidProfiles c"
  "pidProfiles (fixDshot t c) = pidProfiles c"
  "pidProfiles (fixOsdTimers t c) = pidProfiles c"
  "pidProfiles (fixVtx t c) = pidProfiles c"
  by (simp_all add: fixMixerMode_def fixSerialConfig_def fixPidProfiles_def fixBrushed_def
        fixStandardPwmRate_def fixAlignments_def fixRxFeatures_def fixSoftSpi_def fixRssi_def
        fixGpsRescue_def fixEscSensor_def fixModeActivationConditions_def fixDshotBitbang_def
        disableUnless_def fixBeeper_def fixDshot_def fixOsdTimers_def fixVtx_def Let_def)

lemma clearUnsupportedFeatures_pidProfiles [simp]:
  "pidProfiles (clearUnsupportedFeatures t c) = pidProfiles c"
  by (simp add: clearUnsupportedFeatures_def Let_def)

lemma fixGps_simps [simp]:
  "guards (fixGps t s) = guards s"
  "rxSuspendCount (fixGps t s) = rxSuspendCount s"
  "eeprom (fixGps t s) = eeprom s"
  "pidProfiles (config (fixGps t s)) = pidProfiles (config s)"
  "gyro_targetLooptime (fixGps t s) = gyro_targetLooptime s"
  "gyroMpuDetectionResult_sensor (fixGps t s) = gyroMpuDetectionResult_sensor s"
  by (simp_all add: fixGps_def Let_def split: option.splits)

lemma fixGps_calls:
  "\<exists>extra. calls (fixGps t s) = calls s @ extra \<and> \<not> list_ex storageOrSignalCall extra"
  by (simp add: fixGps_def Let_def split: option.splits)

lemma validateAndFixConfig_guards [simp]:
  "guards (validateAndFixConfig t s) = guards s"
  "rxSuspendCount (validateAndFixConfig t s) = rxSuspendCount s"
  "eeprom (validateAndFixConfig t s) = eeprom s"
  by (simp_all add: validateAndFixConfig_def Let_def)

lemma validateAndFixConfig_calls:
  "\<exists>extra. calls (validateAndFixConfig t s) = calls s @ extra \<and> \<not> list_ex storageOrSignalCall extra"
proof -
  obtain extra where "calls (fixGps t (onConfig (fixSerialConfig t) (onConfig (fixMixerMode t) s)))
      = calls s @ extra" and "\<not> list_ex storageOrSignalCall extra"
    using fixGps_calls[of t "onConfig (fixSerialConfig t) (onConfig (fixMixerMode t) s)"] by auto
  then have "calls (validateAndFixConfig t s) = calls s @ (extra @ [LoadControlRateProfile])
      \<and> \<not> list_ex storageOrSignalCall (extra @ [LoadControlRateProfile])"
    by (simp add: validateAndFixConfig_def Let_def)
  then show ?thesis by blast
qed

lemma activateConfig_frame [simp]:
  "guards (activateConfig t s) = guards s"
  "rxSuspendCount (activateConfig t s) = rxSuspendCount s"
  "eeprom (activateConfig t s) = eeprom s"
  "config (activateConfig t s) = config s"
  by (simp_all add: activateConfig_def Let_def)

lemma activateConfig_calls:
  "\<exists>extra. calls (activateConfig t s) = calls s @ extra \<and> \<not> list_ex storageOrSignalCall extra"
  by (simp add: activateConfig_def Let_def)

lemma suspend_resume_simps [simp]:
  "guards (suspendRxPwmPpmSignal s) = guards s"
  "guards (resumeRxPwmPpmSignal s) = guards s"
  "rxSuspendCount (suspendRxPwmPpmSignal s) = rxSuspendCount s + 1"
  "rxSuspendCount (resumeRxPwmPpmSignal s) = rxSuspendCount s - 1"
  "calls (suspendRxPwmPpmSignal s) = calls s @ [SuspendRxPwmPpmSignal]"
  "calls (resumeRxPwmPpmSignal s) = calls s @ [ResumeRxPwmPpmSignal]"
  "config (suspendRxPwmPpmSignal s) = config s"
  "config (resumeRxPwmPpmSignal s) = config s"
  "eeprom (suspendRxPwmPpmSignal s) = eeprom s"
  "eeprom (resumeRxPwmPpmSignal s) = eeprom s"
  by (simp_all add: suspendRxPwmPpmSignal_def resumeRxPwmPpmSignal_def guards_def)

lemma storage_simps [simp]:
  "guards (snd (storageLoad t s)) = guards s"
  "rxSuspendCount (snd (storageLoad t s)) = rxSuspendCount s"
  "calls (snd (storageLoad t s)) = calls s @ [LoadEEPROM (fst (loadEEPROM t (eeprom s) (config s)))]"
  "fst (storageLoad t s) = fst (loadEEPROM t (eeprom s) (config s))"
  "guards (storageWrite t s) = guards s"
  "rxSuspendCount (storageWrite t s) = rxSuspendCount s"
  "calls (storageWrite t s) = calls s @ [WriteConfigToEEPROM]"
  by (simp_all add: storageLoad_def storageWrite_def guards_def split: prod.splits)

text \<open>
  Claim C8. \<open>readEEPROM\<close>, whatever the storage load reports, and
  \<open>writeUnmodifiedConfigToEEPROM\<close> leave the suspend counter at its value before the call.
  In the call log the suspension comes directly before the storage access, the resumption
  is the last call made, directly after the write and after validation and activation in
  the read, and no other storage access, suspension or resumption happens in between or
  before.
\<close>

theorem eeprom_access_suspends_rx_signal:
  "(case readEEPROM t s of
      (success, s') \<Rightarrow>
        rxSuspendCount s' = rxSuspendCount s
        \<and> success = fst (loadEEPROM t (eeprom s) (config s))
        \<and> (\<exists>mid. calls s' = calls s @ [SuspendRxPwmPpmSignal, LoadEEPROM success] @ mid
                              @ [ResumeRxPwmPpmSignal]
                 \<and> \<not> list_ex storageOrSignalCall mid))
   \<and> rxSuspendCount (writeUnmodifiedConfigToEEPROM t s) = rxSuspendCount s
   \<and> (\<exists>pre. calls (writeUnmodifiedConfigToEEPROM t s)
               = calls s @ pre @ [SuspendRxPwmPpmSignal, WriteConfigToEEPROM, ResumeRxPwmPpmSignal]
            \<and> \<not> list_ex storageOrSignalCall pre)"
proof -
  define s2 where "s2 = snd (storageLoad t (suspendRxPwmPpmSignal s))"
  define ok where "ok = fst (loadEEPROM t (eeprom s) (config s))"
  have rd: "readEEPROM t s
      = (ok, resumeRxPwmPpmSignal (activateConfig t (validateAndFixConfig t s2)))"
    by (simp add: readEEPROM_def Let_def split_def s2_def ok_def)
  have c2: "calls s2 = calls s @ [SuspendRxPwmPpmSignal, LoadEEPROM ok]"
    by (simp add: s2_def ok_def)
  obtain e1 where e1: "calls (validateAndFixConfig t s2) = calls s2 @ e1"
      "\<not> list_ex storageOrSignalCall e1"
    using validateAndFixConfig_calls[of t s2] by auto
  obtain e2 where e2: "calls (activateConfig t (validateAndFixConfig t s2))
      = calls (validateAndFixConfig t s2) @ e2" "\<not> list_ex storageOrSignalCall e2"
    using activateConfig_calls[of t "validateAndFixConfig t s2"] by auto
  have r1: "rxSuspendCount (snd (readEEPROM t s)) = rxSuspendCount s"
    by (simp add: rd s2_def)
  have r2: "calls (snd (readEEPROM t s))
      = calls s @ [SuspendRxPwmPpmSignal, LoadEEPROM ok] @ (e1 @ e2) @ [ResumeRxPwmPpmSignal]
      \<and> \<not> list_ex storageOrSignalCall (e1 @ e2)"
    using e1 e2 c2 by (simp add: rd)
  obtain p where p: "calls (validateAndFixConfig t s) = calls s @ p"
      "\<not> list_ex storageOrSignalCall p"
    using validateAndFixConfig_calls[of t s] by auto
  have w1: "rxSuspendCount (writeUnmodifiedConfigToEEPROM t s) = rxSuspendCount s"
    by (simp add: writeUnmodifiedConfigToEEPROM_def Let_def)
  have w2: "calls (writeUnmodifiedConfigToEEPROM t s)
      = calls s @ p @ [SuspendRxPwmPpmSignal, WriteConfigToEEPROM, ResumeRxPwmPpmSignal]"
    using p by (simp add: writeUnmodifiedConfigToEEPROM_def Let_def)
  from r1 r2 w1 w2 p(2) show ?thesis
    unfolding rd by (simp add: ok_def)
qed

lemma exampleState_simps:
  "eeprom exampleState = [1]" "rxSuspendCount exampleState = 0" "config exampleState = exampleConfig"
  "rebootRequired exampleState = False" "armingDisableFlags exampleState = {}"
  "calls exampleState = []"
  by (simp_all add: exampleState_def)

lemma exampleTarget_storage:
  "loadEEPROM exampleTarget bytes c = (bytes \<noteq> [], c)"
  by (simp add: exampleTarget_def)

text \<open>
  Claim C8 on the example state: a load that succeeds, a load that fails (empty store), and
  a write.
\<close>

theorem eeprom_access_suspends_rx_signal_witness:
  "fst (readEEPROM exampleTarget exampleState)
   \<and> rxSuspendCount (snd (readEEPROM exampleTarget exampleState)) = 0
   \<and> \<not> fst (readEEPROM exampleTarget (exampleState\<lparr>eeprom := []\<rparr>))
   \<and> rxSuspendCount (snd (readEEPROM exampleTarget (exampleState\<lparr>eeprom := []\<rparr>))) = 0
   \<and> rxSuspendCount (writeUnmodifiedConfigToEEPROM exampleTarget exampleState) = 0"
  using eeprom_access_suspends_rx_signal[where t = exampleTarget and s = exampleState]
    eeprom_access_suspends_rx_signal[where t = exampleTarget and s = "exampleState\<lparr>eeprom := []\<rparr>"]
  by (simp add: split_def exampleState_simps exampleTarget_storage)

subsection \<open>The reboot-required flag\<close>

lemma guards_update [simp]:
  "guards (s\<lparr>configIsDirty := d\<rparr>) = guards s"
  "guards (s\<lparr>config := c\<rparr>) = guards s"
  by (simp_all add: guards_def)

lemma changePidProfile_frame [simp]:
  "guards (changePidProfile i s) = guards s"
  by (simp add: changePidProfile_def Let_def)

lemma changePidProfileFromCellCount_frame:
  "changePidProfileFromCellCount t cellCount s = Some s' \<Longrightarrow> guards s' = guards s"
  by (auto simp: changePidProfileFromCellCount_def Let_def split: if_splits option.splits)

lemma writeUnmodified_frame [simp]:
  "guards (writeUnmodifiedConfigToEEPROM t s) = guards s"
  by (simp add: writeUnmodifiedConfigToEEPROM_def Let_def)

lemma readEEPROM_frame [simp]: "guards (snd (readEEPROM t s)) = guards s"
  by (simp add: readEEPROM_def Let_def split_def)

lemma resetConfig_frame [simp]: "guards (resetConfig t s) = guards s"
  by (simp add: resetConfig_def Let_def)

lemma writeEEPROM_frame [simp]:
  "guards (writeEEPROM t s) = guards s"
  "guards (writeEEPROMWithFeatures t fs s) = guards s"
  by (simp_all add: writeEEPROM_def writeEEPROMWithFeatures_def)

lemma resetEEPROM_frame [simp]: "guards (snd (resetEEPROM t b s)) = guards s"
  by (simp add: resetEEPROM_def Let_def split_def)

lemma more_frames [simp]:
  "guards (ensureEEPROMStructureIsValid t s) = guards s"
  "guards (saveConfigAndNotify t s) = guards s"
  "guards (setConfigDirty s) = guards s"
  by (simp_all add: ensureEEPROMStructureIsValid_def saveConfigAndNotify_def setConfigDirty_def)

lemma setRebootRequired_guards:
  "guards (setRebootRequired s) = (True, insert ARMING_DISABLED_REBOOT_REQUIRED (armingDisableFlags s))"
  by (simp add: setRebootRequired_def setArmingDisabled_def guards_def)

lemma rebootPending_guards:
  "rebootPending s = (fst (guards s) \<and> ARMING_DISABLED_REBOOT_REQUIRED \<in> snd (guards s))"
  by (simp add: rebootPending_def getRebootRequired_def guards_def)

lemma exec_keeps_rebootPending:
  "exec t x s = Some s' \<Longrightarrow> rebootPending s \<Longrightarrow> rebootPending s'"
  by (cases x)
     (auto simp: rebootPending_guards setRebootRequired_guards
           dest: changePidProfileFromCellCount_frame)

lemma run_keeps_rebootPending:
  "run t xs s = Some s' \<Longrightarrow> rebootPending s \<Longrightarrow> rebootPending s'"
proof (induction xs arbitrary: s)
  case Nil
  then show ?case by simp
next
  case (Cons x xs)
  then show ?case by (auto split: option.splits dest: exec_keeps_rebootPending)
qed

lemma run_append:
  "run t (xs @ ys) s = (case run t xs s of None \<Rightarrow> None | Some s1 \<Rightarrow> run t ys s1)"
  by (induction xs arbitrary: s) (auto split: option.splits)

text \<open>
  Claim C10. In any run of operations of the module in which \<open>setRebootRequired\<close> occurs,
  every state reached afterwards has \<open>getRebootRequired\<close> true and the flag
  \<open>ARMING_DISABLED_REBOOT_REQUIRED\<close> set: no operation clears either.
\<close>

theorem reboot_required_stays_set:
  assumes "run t (before @ SetRebootRequired # after) s = Some s'"
  shows "getRebootRequired s' \<and> ARMING_DISABLED_REBOOT_REQUIRED \<in> armingDisableFlags s'"
proof -
  from assms obtain s1 where s1: "run t before s = Some s1"
      and rest: "run t after (setRebootRequired s1) = Some s'"
    by (auto simp: run_append split: option.splits)
  have "rebootPending (setRebootRequired s1)"
    by (simp add: rebootPending_guards setRebootRequired_guards)
  with rest have "rebootPending s'" by (rule run_keeps_rebootPending)
  then show ?thesis by (simp add: rebootPending_def)
qed

text \<open>
  Claim C10 on the example state: a run with operations before and after
  \<open>setRebootRequired\<close>.
\<close>

theorem reboot_required_stays_set_witness:
  "run exampleTarget ([SetConfigDirty] @ SetRebootRequired # [ChangePidProfile 1, SetConfigDirty])
       exampleState
     = Some (setConfigDirty (changePidProfile 1 (setRebootRequired (setConfigDirty exampleState))))
   \<and> getRebootRequired
        (setConfigDirty (changePidProfile 1 (setRebootRequired (setConfigDirty exampleState))))
   \<and> ARMING_DISABLED_REBOOT_REQUIRED \<in> armingDisableFlags
        (setConfigDirty (changePidProfile 1 (setRebootRequired (setConfigDirty exampleState))))"
proof -
  have r: "run exampleTarget ([SetConfigDirty] @ SetRebootRequired # [ChangePidProfile 1, SetConfigDirty])
       exampleState
     = Some (setConfigDirty (changePidProfile 1 (setRebootRequired (setConfigDirty exampleState))))"
    by simp
  from reboot_required_stays_set[OF r] r show ?thesis by simp
qed

subsection \<open>The D-term notch\<close>

lemma fixTarget_hook: "hookKeeps t field \<Longrightarrow> field (fixTarget t c) = field c"
  by (simp add: hookKeeps_def fixTarget_def)

lemma fixDMin_notch [simp]:
  "dterm_notch_hz (fixDMin axis p) = dterm_notch_hz p"
  "dterm_notch_cutoff (fixDMin axis p) = dterm_notch_cutoff p"
  by (simp_all add: fixDMin_def)

lemma fold_fixDMin_notch [simp]:
  "dterm_notch_hz (fold fixDMin axes p) = dterm_notch_hz p"
  "dterm_notch_cutoff (fold fixDMin axes p) = dterm_notch_cutoff p"
  by (induction axes arbitrary: p) simp_all


lemma clear_notch [simp]:
  "notchConsistent (clearF axis p) = notchConsistent p"
  "notchConsistent (p\<lparr>throttle_boost := b\<rparr>) = notchConsistent p"
  by (simp_all add: notchConsistent_def clearF_def)



lemma exampleTarget_hook: "hookKeeps exampleTarget field"
  by (simp add: hookKeeps_def exampleTarget_def)


subsection \<open>Receiver-input features\<close>

lemma featureIsEnabled_single [simp]: "featureIsEnabled {x} c = (x \<in> enabledFeatures c)"
  by (simp add: featureIsEnabled_def)

lemma mem_disableUnless [simp]:
  "(x \<in> enabledFeatures (disableUnless b fs c)) = (x \<in> enabledFeatures c \<and> (b \<or> x \<notin> fs))"
  by (simp add: disableUnless_def)

lemma blocks_features [simp]:
  "enabledFeatures (fixMixerMode t c) = enabledFeatures c"
  "enabledFeatures (fixSerialConfig t c) = enabledFeatures c"
  "enabledFeatures (fixPidProfiles t c) = enabledFeatures c"
  "enabledFeatures (fixStandardPwmRate t c) = enabledFeatures c"
  "enabledFeatures (fixAlignments t c) = enabledFeatures c"
  "enabledFeatures (fixRssi t c) = enabledFeatures c"
  "enabledFeatures (fixFeedforward t c) = enabledFeatures c"
  "enabledFeatures (fixGpsRescue t c) = enabledFeatures c"
  "enabledFeatures (fixModeActivationConditions t c) = enabledFeatures c"
  "enabledFeatures (fixDshotBitbang t c) = enabledFeatures c"
  "enabledFeatures (fixBeeper t c) = enabledFeatures c"
  "enabledFeatures (fixDshot t c) = enabledFeatures c"
  "enabledFeatures (fixOsdTimers t c) = enabledFeatures c"
  "enabledFeatures (fixVtx t c) = enabledFeatures c"
  by (simp_all add: fixMixerMode_def fixSerialConfig_def fixPidProfiles_def
        fixStandardPwmRate_def fixAlignments_def fixRssi_def fixFeedforward_def
        fixGpsRescue_def fixModeActivationConditions_def fixDshotBitbang_def
        fixBeeper_def fixDshot_def fixOsdTimers_def fixVtx_def Let_def)

lemma mem_fixSoftSpi:
  "(x \<in> enabledFeatures (fixSoftSpi t c)) =
     (x \<in> enabledFeatures c
      \<and> (USE_SOFTSPI \<in> defined t \<and> FEATURE_SOFTSPI \<in> enabledFeatures c \<longrightarrow>
           x \<notin> {FEATURE_RX_PPM, FEATURE_RX_PARALLEL_PWM, FEATURE_SOFTSERIAL}
           \<and> (STM32F10X \<in> defined t \<longrightarrow> x \<notin> {FEATURE_LED_STRIP, FEATURE_RSSI_ADC})))"
  by (auto simp: fixSoftSpi_def Let_def)

lemma mem_fixEscSensor:
  "x \<in> enabledFeatures (fixEscSensor t c) \<Longrightarrow> x \<in> enabledFeatures c"
  by (simp add: fixEscSensor_def split: if_splits)

lemma mem_fixEscSensor_rx:
  "x \<in> rxFeatures \<Longrightarrow> (x \<in> enabledFeatures (fixEscSensor t c)) = (x \<in> enabledFeatures c)"
  by (auto simp: fixEscSensor_def rxFeatures_def)

lemma mem_clearUnsupportedFeatures:
  "x \<in> enabledFeatures (clearUnsupportedFeatures t c) \<Longrightarrow> x \<in> enabledFeatures c"
  by (simp add: clearUnsupportedFeatures_def Let_def)

lemma fixRxFeatures_exclusive:
  "a \<in> enabledFeatures (fixRxFeatures t c) \<Longrightarrow> b \<in> enabledFeatures (fixRxFeatures t c)
     \<Longrightarrow> a \<in> rxFeatures \<Longrightarrow> b \<in> rxFeatures \<Longrightarrow> a = b"
  unfolding fixRxFeatures_def Let_def rxFeatures_def
  by (simp split: if_splits) blast+

lemma keep_fixBrushed:
  "x \<noteq> FEATURE_3D \<Longrightarrow> (x \<in> enabledFeatures (fixBrushed c)) = (x \<in> enabledFeatures c)"
  by (simp add: fixBrushed_def Let_def featureDisable_def)

lemma keep_fixGps:
  "x \<noteq> FEATURE_GPS \<Longrightarrow> (x \<in> enabledFeatures (config (fixGps t s))) = (x \<in> enabledFeatures (config s))"
  by (simp add: fixGps_def Let_def featureDisable_def split: option.splits)

lemma keep_validateAndFixGyroConfig:
  "x \<noteq> FEATURE_DYNAMIC_FILTER
     \<Longrightarrow> (x \<in> enabledFeatures (config (validateAndFixGyroConfig t s))) = (x \<in> enabledFeatures (config s))"
  by (simp add: validateAndFixGyroConfig_def Let_def featureDisable_def)

lemma mem_clearUnsupportedFeatures_rx:
  assumes "x \<in> rxFeatures"
  shows "(x \<in> enabledFeatures (clearUnsupportedFeatures t c)) = (x \<in> enabledFeatures c \<and> rxCompiled t x)"
proof -
  consider "x = FEATURE_RX_PPM" | "x = FEATURE_RX_PARALLEL_PWM" | "x = FEATURE_RX_SERIAL"
    | "x = FEATURE_RX_MSP" | "x = FEATURE_RX_SPI"
    using assms by (auto simp: rxFeatures_def)
  then show ?thesis
    by cases (simp_all add: clearUnsupportedFeatures_def Let_def rxCompiled_def)
qed

lemma fixRxFeatures_default:
  assumes none: "enabledFeatures c \<inter> rxFeatures = {}"
    and dflt: "DEFAULT_RX_FEATURE t = {d}" "d \<in> rxFeatures"
  shows "enabledFeatures (fixRxFeatures t c) = insert d (enabledFeatures c)"
proof -
  have n: "FEATURE_RX_PPM \<notin> enabledFeatures c" "FEATURE_RX_PARALLEL_PWM \<notin> enabledFeatures c"
    "FEATURE_RX_SERIAL \<notin> enabledFeatures c" "FEATURE_RX_MSP \<notin> enabledFeatures c"
    "FEATURE_RX_SPI \<notin> enabledFeatures c"
    using none by (auto simp: rxFeatures_def)
  have m: "insert d (enabledFeatures c) - A = insert d (enabledFeatures c)"
    if "d \<notin> A" "A \<subseteq> rxFeatures" for A
    using that none by auto
  consider "d = FEATURE_RX_PPM" | "d = FEATURE_RX_PARALLEL_PWM" | "d = FEATURE_RX_SERIAL"
    | "d = FEATURE_RX_MSP" | "d = FEATURE_RX_SPI"
    using dflt(2) by (auto simp: rxFeatures_def)
  then show ?thesis
  proof cases
    case 1
    then show ?thesis
      by (simp add: fixRxFeatures_def Let_def featureEnable_def featureDisable_def n dflt(1)
            m rxFeatures_def)
  next
    case 2
    then show ?thesis
      by (simp add: fixRxFeatures_def Let_def featureEnable_def featureDisable_def n dflt(1)
            m rxFeatures_def)
  next
    case 3
    then show ?thesis
      by (simp add: fixRxFeatures_def Let_def featureEnable_def featureDisable_def n dflt(1)
            m rxFeatures_def)
  next
    case 4
    then show ?thesis
      by (simp add: fixRxFeatures_def Let_def featureEnable_def featureDisable_def n dflt(1)
            m rxFeatures_def)
  next
    case 5
    then show ?thesis
      by (simp add: fixRxFeatures_def Let_def featureEnable_def featureDisable_def n dflt(1)
            m rxFeatures_def)
  qed
qed

lemma rx_default_result:
  assumes hook: "hookKeeps t enabledFeatures"
    and none: "enabledFeatures (config s) \<inter> rxFeatures = {}"
    and dflt: "DEFAULT_RX_FEATURE t = {d}" "d \<in> rxFeatures"
  shows "enabledFeatures (config (validateAndFixConfig t s)) \<inter> rxFeatures
           = (if rxCompiled t d \<and> \<not> softSpiClears t (config s) d then {d} else {})"
proof -
  define s8 where "s8 = onConfig (fixAlignments t) (validateAndFixGyroConfig t
     (onConfig (fixStandardPwmRate t) (onConfig fixBrushed (onConfig (fixPidProfiles t)
     (fixGps t (onConfig (fixSerialConfig t) (onConfig (fixMixerMode t) s)))))))"
  define post where "post = (\<lambda>c. fixVtx t (fixOsdTimers t (fixDshot t (fixBeeper t
     (clearUnsupportedFeatures t (fixDshotBitbang t (fixModeActivationConditions t c)))))))"
  have cfg: "config (validateAndFixConfig t s)
       = fixTarget t (post (fixEscSensor t (fixGpsRescue t (fixFeedforward t (fixRssi t
           (fixSoftSpi t (fixRxFeatures t (config s8))))))))"
    by (simp add: validateAndFixConfig_def Let_def s8_def post_def)
  have pre: "(x \<in> enabledFeatures (config s8)) = (x \<in> enabledFeatures (config s))"
    if "x \<in> insert FEATURE_SOFTSPI rxFeatures" for x
    using that
    by (auto simp: s8_def rxFeatures_def keep_validateAndFixGyroConfig keep_fixBrushed keep_fixGps)
  have post: "(x \<in> enabledFeatures (post c)) = (x \<in> enabledFeatures c \<and> rxCompiled t x)"
    if "x \<in> rxFeatures" for c x
    using that by (simp add: post_def mem_clearUnsupportedFeatures_rx)
  have "enabledFeatures (config s8) \<inter> rxFeatures = {}" using none pre by blast
  then have rx: "enabledFeatures (fixRxFeatures t (config s8)) = insert d (enabledFeatures (config s8))"
    using dflt by (rule fixRxFeatures_default)
  have d: "d \<noteq> FEATURE_SOFTSPI \<and> d \<noteq> FEATURE_SOFTSERIAL \<and> d \<noteq> FEATURE_LED_STRIP \<and> d \<noteq> FEATURE_RSSI_ADC"
    using dflt(2) by (auto simp: rxFeatures_def)
  have "(x \<in> enabledFeatures (config (validateAndFixConfig t s)))
          = (x = d \<and> rxCompiled t d \<and> \<not> softSpiClears t (config s) d)"
    if x: "x \<in> rxFeatures" for x
  proof -
    have nx: "x \<notin> enabledFeatures (config s8)"
      using none x pre[of x] by blast
    have xs: "x \<noteq> FEATURE_SOFTSERIAL \<and> x \<noteq> FEATURE_LED_STRIP \<and> x \<noteq> FEATURE_RSSI_ADC"
      using x by (auto simp: rxFeatures_def)
    show ?thesis
      using x nx xs d pre[of FEATURE_SOFTSPI]
      by (auto simp: cfg fixTarget_hook[OF hook] post mem_fixEscSensor_rx mem_fixSoftSpi rx
            softSpiClears_def)
  qed
  then show ?thesis using dflt(2) by auto
qed

lemma rx_at_most_one:
  assumes hook: "hookKeeps t enabledFeatures"
  shows "card (enabledFeatures (config (validateAndFixConfig t s)) \<inter> rxFeatures) \<le> 1"
proof -
  define s8 where "s8 = onConfig (fixAlignments t) (validateAndFixGyroConfig t
     (onConfig (fixStandardPwmRate t) (onConfig fixBrushed (onConfig (fixPidProfiles t)
     (fixGps t (onConfig (fixSerialConfig t) (onConfig (fixMixerMode t) s)))))))"
  define post where "post = (\<lambda>c. fixVtx t (fixOsdTimers t (fixDshot t (fixBeeper t
     (clearUnsupportedFeatures t (fixDshotBitbang t (fixModeActivationConditions t c)))))))"
  have cfg: "config (validateAndFixConfig t s)
       = fixTarget t (post (fixEscSensor t (fixGpsRescue t (fixFeedforward t (fixRssi t
           (fixSoftSpi t (fixRxFeatures t (config s8))))))))"
    by (simp add: validateAndFixConfig_def Let_def s8_def post_def)
  have shrink: "x \<in> enabledFeatures c" if "x \<in> enabledFeatures (post c)" for c x
    using that by (auto simp: post_def dest: mem_clearUnsupportedFeatures)
  let ?F = "enabledFeatures (config (validateAndFixConfig t s))"
  have sub: "x \<in> enabledFeatures (fixRxFeatures t (config s8))" if "x \<in> ?F" for x
    using that
    by (auto simp: cfg fixTarget_hook[OF hook] mem_fixSoftSpi dest!: shrink mem_fixEscSensor)
  have "a = b" if "a \<in> ?F \<inter> rxFeatures" "b \<in> ?F \<inter> rxFeatures" for a b
    using that fixRxFeatures_exclusive[of a t "config s8" b] by (auto dest: sub)
  moreover have "finite (?F \<inter> rxFeatures)" by (simp add: rxFeatures_def)
  ultimately show ?thesis
    by (metis card_le_Suc0_iff_eq One_nat_def)
qed

text \<open>
  Claim C2, amended. After \<open>validateAndFixConfig\<close> at most one of the five receiver-input
  features is enabled, for every configuration and every target. If none was enabled on
  entry, the exclusivity block enables the target's default receiver feature; on return
  the default is the one receiver feature enabled exactly when its driver is compiled in
  and the soft-SPI rule has not cleared it, and otherwise no receiver feature is enabled.
  The target's own validation hook, when the build has one, is assumed to leave the
  feature mask alone.
\<close>

theorem validateAndFixConfig_rx_exclusive:
  assumes hook: "hookKeeps t enabledFeatures"
  shows "card (enabledFeatures (config (validateAndFixConfig t s)) \<inter> rxFeatures) \<le> 1
    \<and> (enabledFeatures (config s) \<inter> rxFeatures = {}
          \<and> DEFAULT_RX_FEATURE t = {d} \<and> d \<in> rxFeatures
        \<longrightarrow> enabledFeatures (config (validateAndFixConfig t s)) \<inter> rxFeatures
              = (if rxCompiled t d \<and> \<not> softSpiClears t (config s) d then {d} else {}))"
  using rx_at_most_one[OF hook] rx_default_result[OF hook] by blast

lemma exampleTarget_rx:
  "DEFAULT_RX_FEATURE exampleTarget = {FEATURE_RX_PARALLEL_PWM}"
  "rxCompiled exampleTarget FEATURE_RX_PARALLEL_PWM"
  "\<not> softSpiClears exampleTarget c d"
  by (simp_all add: exampleTarget_def rxCompiled_def softSpiClears_def)

lemma exampleNoPwmTarget_rx:
  "hookKeeps exampleNoPwmTarget field"
  "DEFAULT_RX_FEATURE exampleNoPwmTarget = {FEATURE_RX_PARALLEL_PWM}"
  "\<not> rxCompiled exampleNoPwmTarget FEATURE_RX_PARALLEL_PWM"
  by (simp_all add: exampleNoPwmTarget_def exampleTarget_def rxCompiled_def hookKeeps_def)

lemma exampleSoftSpiTarget_rx:
  "hookKeeps exampleSoftSpiTarget field"
  "DEFAULT_RX_FEATURE exampleSoftSpiTarget = {FEATURE_RX_PARALLEL_PWM}"
  "rxCompiled exampleSoftSpiTarget FEATURE_RX_PARALLEL_PWM"
  "softSpiClears exampleSoftSpiTarget (config exampleSoftSpiState) FEATURE_RX_PARALLEL_PWM"
  by (simp_all add: exampleSoftSpiTarget_def exampleTarget_def rxCompiled_def hookKeeps_def
        softSpiClears_def exampleSoftSpiState_def)

text \<open>
  Claim C2 as stated fails. With no receiver feature enabled on entry, the default
  \<open>FEATURE_RX_PARALLEL_PWM\<close> is enabled at line 276 and cleared again before the function
  returns: on a build without \<^verbatim>\<open>USE_PWM\<close> by the pruning at line 423, and on a build with
  \<^verbatim>\<open>USE_PWM\<close> and soft SPI, for a configuration that enables \<open>FEATURE_SOFTSPI\<close>, by the
  soft-SPI rule at line 303.
\<close>

theorem validateAndFixConfig_rx_default_counterexample:
  "enabledFeatures (config exampleNoRxState) \<inter> rxFeatures = {}
   \<and> DEFAULT_RX_FEATURE exampleNoPwmTarget = {FEATURE_RX_PARALLEL_PWM}
   \<and> FEATURE_RX_PARALLEL_PWM
        \<notin> enabledFeatures (config (validateAndFixConfig exampleNoPwmTarget exampleNoRxState))
   \<and> enabledFeatures (config exampleSoftSpiState) \<inter> rxFeatures = {}
   \<and> DEFAULT_RX_FEATURE exampleSoftSpiTarget = {FEATURE_RX_PARALLEL_PWM}
   \<and> USE_PWM \<in> defined exampleSoftSpiTarget
   \<and> FEATURE_RX_PARALLEL_PWM
        \<notin> enabledFeatures (config (validateAndFixConfig exampleSoftSpiTarget exampleSoftSpiState))"
proof -
  have n1: "enabledFeatures (config exampleNoRxState) \<inter> rxFeatures = {}"
    by (simp add: exampleNoRxState_def rxFeatures_def)
  have n2: "enabledFeatures (config exampleSoftSpiState) \<inter> rxFeatures = {}"
    by (simp add: exampleSoftSpiState_def rxFeatures_def)
  have r: "FEATURE_RX_PARALLEL_PWM \<in> rxFeatures" by (simp add: rxFeatures_def)
  have "enabledFeatures (config (validateAndFixConfig exampleNoPwmTarget exampleNoRxState))
          \<inter> rxFeatures = {}"
    using rx_default_result[OF exampleNoPwmTarget_rx(1) n1 exampleNoPwmTarget_rx(2) r]
    by (simp add: exampleNoPwmTarget_rx)
  moreover have "enabledFeatures (config (validateAndFixConfig exampleSoftSpiTarget exampleSoftSpiState))
          \<inter> rxFeatures = {}"
    using rx_default_result[OF exampleSoftSpiTarget_rx(1) n2 exampleSoftSpiTarget_rx(2) r]
    by (simp add: exampleSoftSpiTarget_rx)
  moreover have "USE_PWM \<in> defined exampleSoftSpiTarget"
    by (simp add: exampleSoftSpiTarget_def exampleTarget_def)
  ultimately show ?thesis
    using n1 n2 r by (auto simp: exampleNoPwmTarget_rx exampleSoftSpiTarget_rx)
qed

text \<open>
  Claim C2, amended, on the example target: a configuration with three receiver features
  enabled, and one with none, which ends with the default \<open>FEATURE_RX_PARALLEL_PWM\<close> alone.
\<close>

theorem validateAndFixConfig_rx_exclusive_witness:
  "hookKeeps exampleTarget enabledFeatures
   \<and> card (enabledFeatures (config (validateAndFixConfig exampleTarget exampleManyRxState))
        \<inter> rxFeatures) \<le> 1
   \<and> enabledFeatures (config exampleNoRxState) \<inter> rxFeatures = {}
   \<and> enabledFeatures (config (validateAndFixConfig exampleTarget exampleNoRxState)) \<inter> rxFeatures
       = {FEATURE_RX_PARALLEL_PWM}"
  using validateAndFixConfig_rx_exclusive[OF exampleTarget_hook, of exampleManyRxState
      FEATURE_RX_PARALLEL_PWM]
    validateAndFixConfig_rx_exclusive[OF exampleTarget_hook, of exampleNoRxState
      FEATURE_RX_PARALLEL_PWM]
  by (simp add: exampleTarget_hook exampleTarget_rx rxFeatures_def exampleNoRxState_def)

subsection \<open>One pass of the rule evaluator on the example configuration\<close>

lemma exampleTarget_fields:
  "defined exampleTarget = {USE_SERVOS, USE_GPS, USE_DYN_LPF, USE_RX_SPI, USE_ADC, USE_PWM, USE_PPM,
                  USE_THROTTLE_BOOST, USE_GPS_RESCUE, USE_ESC_SENSOR, USE_DSHOT_TELEMETRY,
                  USE_DSHOT_BITBANG, USE_SERIAL_RX, USE_SOFTSERIAL1, USE_TELEMETRY, USE_RX_MSP,
                  USE_LED_STRIP, USE_OSD, USE_GYRO_DATA_ANALYSE, USE_BEEPER, USE_TIMER, USE_DSHOT,
                  USE_VTX_COMMON, USE_VTX_TABLE, USE_BLACKBOX, USE_FLASHFS, USE_ACC}"
  "FILTER_FREQUENCY_MAX exampleTarget = 4000"
  "MAX_AUTO_DETECT_CELL_COUNT exampleTarget = 8"
  "AUTO_PROFILE_CELL_COUNT_CHANGE exampleTarget = - 1"
  "BRUSHLESS_MOTORS_PWM_RATE exampleTarget = 480"
  "BLACKBOX_DEVICE_NONE exampleTarget = 0"
  "BEEPER_ALLOWED_MODES exampleTarget = 0xFFFFFF"
  "DSHOT_BEACON_ALLOWED_MODES exampleTarget = 0x300"
  "DSHOT_CMD_BEACON1 exampleTarget = 1"
  "DSHOT_CMD_BEACON5 exampleTarget = 5"
  "OSD_TIMER_SRC_COUNT exampleTarget = 4"
  "OSD_TIMER_PREC_COUNT exampleTarget = 3"
  "osdTimerDefault exampleTarget = [0, 0]"
  "BOXARM exampleTarget = 0"
  "BOXGPSRESCUE exampleTarget = 46"
  "HZ_TO_INTERVAL_US exampleTarget x = 1000000 div x"
  "intOfInfinity exampleTarget = 2147483647"
  "pwmTypeValue exampleTarget p =
         (case p of
                PWM_TYPE_STANDARD \<Rightarrow> 0 | PWM_TYPE_ONESHOT125 \<Rightarrow> 1 | PWM_TYPE_ONESHOT42 \<Rightarrow> 2
              | PWM_TYPE_BRUSHED \<Rightarrow> 4 | PWM_TYPE_DSHOT150 \<Rightarrow> 5 | PWM_TYPE_DSHOT300 \<Rightarrow> 6
              | PWM_TYPE_DSHOT600 \<Rightarrow> 7 | PWM_TYPE_PROSHOT1000 \<Rightarrow> 8 | PWM_TYPE_OTHER n \<Rightarrow> n)"
  "mixers_motorCount exampleTarget m = 4"
  "mixers_motor_NULL exampleTarget m = False"
  "mixers_useServo exampleTarget m = False"
  "servoMixers_servoRuleCount exampleTarget m = 0"
  "isSerialConfigValid exampleTarget ports = True"
  "findSerialPortConfig exampleTarget ports f =
     find (\<lambda>p. functionMask p AND (case f of FUNCTION_GPS \<Rightarrow> 2 | FUNCTION_ESC_SENSOR \<Rightarrow> 1024) \<noteq> 0) ports"
  "buildAlignmentFromStandardAlignment exampleTarget custom standard = custom"
  "rcSmoothingIsEnabled exampleTarget rx = True"
  "isModeActivationConditionPresent exampleTarget macs box = (\<exists>m \<in> set macs. modeId m = box)"
  "isModeActivationConditionLinked exampleTarget macs box
     = (\<exists>m \<in> set macs. modeId m = box \<and> linkedTo m \<noteq> 0)"
  "timerGetByTag exampleTarget tag = True"
  "OSD_TIMER_SRC exampleTarget tm = unat (tm AND 0x0F)"
  "OSD_TIMER_PRECISION exampleTarget tm = unat (drop_bit 4 tm AND 0x0F)"
  by (simp_all add: exampleTarget_def)

lemma example_fixMixerMode: "fixMixerMode exampleTarget (timingConfig u d) = timingConfig u d"
  by (simp add: fixMixerMode_def timingConfig_def exampleConfig_def exampleTarget_fields)

lemma example_fixSerialConfig: "fixSerialConfig exampleTarget (timingConfig u d) = timingConfig u d"
  by (simp add: fixSerialConfig_def exampleTarget_fields)

lemma example_fixGps: "fixGps exampleTarget (timingState u d made) = timingState u d made"
  by (simp add: fixGps_def timingState_def timingConfig_def exampleConfig_def exampleTarget_fields
        onConfig_def featureDisable_def Let_def)

lemma forPidProfiles_eq: "forPidProfiles f c = c\<lparr>pidProfiles := map f (pidProfiles c)\<rparr>"
  by (simp add: forPidProfiles_def PID_PROFILE_COUNT_def forPidProfiles_fold)

lemma exampleProfile_fields:
  "dterm_lowpass_hz (exampleProfile cells) = 150"
  "dterm_lowpass2_hz (exampleProfile cells) = 150"
  "dterm_notch_hz (exampleProfile cells) = 0"
  "dterm_notch_cutoff (exampleProfile cells) = 0"
  "dyn_lpf_dterm_min_hz (exampleProfile cells) = 70"
  "dyn_lpf_dterm_max_hz (exampleProfile cells) = 170"
  "motor_output_limit (exampleProfile cells) = 100"
  "auto_profile_cell_count (exampleProfile cells) = cells"
  "(exampleProfile cells)\<lparr>dterm_lowpass_hz := 150\<rparr> = exampleProfile cells"
  "(exampleProfile cells)\<lparr>dterm_lowpass2_hz := 150\<rparr> = exampleProfile cells"
  "(exampleProfile cells)\<lparr>dterm_notch_hz := 0\<rparr> = exampleProfile cells"
  "(exampleProfile cells)\<lparr>dterm_notch_cutoff := 0\<rparr> = exampleProfile cells"
  by (simp_all add: exampleProfile_def)

lemma fixDMin_example:
  assumes "axis < 3"
  shows "fixDMin axis (exampleProfile cells) = exampleProfile cells"
proof -
  have e: "fixDMin 0 (exampleProfile cells) = exampleProfile cells"
    "fixDMin 1 (exampleProfile cells) = exampleProfile cells"
    "fixDMin 2 (exampleProfile cells) = exampleProfile cells"
    by (simp_all add: fixDMin_def exampleProfile_def)
  from assms have "axis = 0 \<or> axis = 1 \<or> axis = 2" by linarith
  with e show ?thesis by auto
qed

lemma fixPidProfile_example:
  "- 1 \<le> cells \<Longrightarrow> cells \<le> 8 \<Longrightarrow> fixPidProfile exampleTarget (exampleProfile cells) = exampleProfile cells"
  by (simp add: fixPidProfile_def exampleProfile_fields fixDMin_example exampleTarget_fields
        adjustFilterLimit_def FD_YAW_def Let_def upt_conv_Cons)

lemma example_fixPidProfiles: "fixPidProfiles exampleTarget (timingConfig u d) = timingConfig u d"
  by (simp add: fixPidProfiles_def forPidProfiles_eq timingConfig_def exampleConfig_def
        fixPidProfile_example)

lemma example_fixBrushed: "fixBrushed (timingConfig u d) = timingConfig u d"
  by (simp add: fixBrushed_def timingConfig_def exampleConfig_def)

lemma example_fixStandardPwmRate: "fixStandardPwmRate exampleTarget (timingConfig u d) = timingConfig u d"
  by (simp add: fixStandardPwmRate_def timingConfig_def exampleConfig_def)

lemma example_fixAlignments: "fixAlignments exampleTarget (timingConfig u d) = timingConfig u d"
  by (simp add: fixAlignments_def timingConfig_def exampleConfig_def exampleTarget_fields Let_def)

lemma example_fixRxFeatures: "fixRxFeatures exampleTarget (timingConfig u d) = timingConfig u d"
  by (simp add: fixRxFeatures_def timingConfig_def exampleConfig_def exampleTarget_fields Let_def
        featureDisable_def featureEnable_def)

lemma example_fixSoftSpi: "fixSoftSpi exampleTarget (timingConfig u d) = timingConfig u d"
  by (simp add: fixSoftSpi_def exampleTarget_fields)

lemma example_fixRssi: "fixRssi exampleTarget (timingConfig u d) = timingConfig u d"
  by (simp add: fixRssi_def timingConfig_def exampleConfig_def exampleTarget_fields)

lemma example_fixFeedforward: "fixFeedforward exampleTarget (timingConfig u d) = timingConfig u d"
  by (simp add: fixFeedforward_def timingConfig_def exampleConfig_def exampleTarget_fields Let_def)

lemma example_fixGpsRescue: "fixGpsRescue exampleTarget (timingConfig u d) = timingConfig u d"
  by (simp add: fixGpsRescue_def timingConfig_def exampleConfig_def exampleTarget_fields Let_def)

lemma example_fixEscSensor: "fixEscSensor exampleTarget (timingConfig u d) = timingConfig u d"
  by (simp add: fixEscSensor_def timingConfig_def exampleConfig_def exampleTarget_fields
        featureDisable_def)

lemma example_fixModeActivationConditions: "fixModeActivationConditions exampleTarget (timingConfig u d) = timingConfig u d"
  by (simp add: fixModeActivationConditions_def fixLinkedCondition_def timingConfig_def
        exampleConfig_def MAX_MODE_ACTIVATION_CONDITION_COUNT_def Let_def upt_conv_Cons)

lemma example_fixDshotBitbang: "fixDshotBitbang exampleTarget (timingConfig u d) = timingConfig u d"
  by (simp add: fixDshotBitbang_def timingConfig_def exampleConfig_def)

lemma example_clearUnsupportedFeatures: "clearUnsupportedFeatures exampleTarget (timingConfig u d) = timingConfig u d"
  by (simp add: clearUnsupportedFeatures_def disableUnless_def timingConfig_def exampleConfig_def
        exampleTarget_fields featureDisable_def Let_def)

lemma example_fixBeeper: "fixBeeper exampleTarget (timingConfig u d) = timingConfig u d"
  by (simp add: fixBeeper_def timingConfig_def exampleConfig_def exampleTarget_fields Let_def)

lemma example_fixDshot: "fixDshot exampleTarget (timingConfig u d) = timingConfig False d"
  by (simp add: fixDshot_def timingConfig_def exampleConfig_def exampleTarget_fields Let_def)

lemma example_fixOsdTimers: "fixOsdTimers exampleTarget (timingConfig u d) = timingConfig u d"
  by (simp add: fixOsdTimers_def fixOsdTimer_def timingConfig_def exampleConfig_def
        exampleTarget_fields Let_def upt_conv_Cons)

lemma example_fixVtx: "fixVtx exampleTarget (timingConfig u d) = timingConfig u d"
  by (simp add: fixVtx_def timingConfig_def exampleConfig_def exampleTarget_fields Let_def)

lemma example_fixTarget: "fixTarget exampleTarget c = c"
  by (simp add: fixTarget_def exampleTarget_fields)

lemma example_fixGyroFilters: "fixGyroFilters exampleTarget 125 (timingConfig u d) = timingConfig u d"
  by (simp add: fixGyroFilters_def timingConfig_def exampleConfig_def exampleTarget_fields Let_def
        adjustFilterLimit_def DYNAMIC_FILTER_MAX_SUPPORTED_LOOP_TIME_def)

lemma example_fixGyroDenoms: "fixGyroDenoms exampleTarget (timingConfig u d) = timingConfig u d"
  by (simp add: fixGyroDenoms_def timingConfig_def exampleConfig_def exampleTarget_fields Let_def)

lemma example_fixLooptime:
  "fixLooptime exampleTarget (MPU_SENSOR_OTHER 0) (timingConfig True 1) = timingConfig True 1"
  "fixLooptime exampleTarget (MPU_SENSOR_OTHER 0) (timingConfig False 1) = timingConfig False 2"
  "fixLooptime exampleTarget (MPU_SENSOR_OTHER 0) (timingConfig False 2) = timingConfig False 2"
  by (simp_all add: fixLooptime_def samplingTime_def motorUpdateRestriction_def timingConfig_def
        exampleConfig_def exampleTarget_fields exampleTarget_simps Let_def constrain_def
        truncf_def pidLooptime_def gyroSampleTime_def)

lemma example_fixBlackboxDevice: "fixBlackboxDevice exampleTarget (timingConfig u d) = timingConfig u d"
  by (simp add: fixBlackboxDevice_def timingConfig_def exampleConfig_def exampleTarget_fields Let_def)

lemma example_fixActiveRateProfile: "fixActiveRateProfile exampleTarget (timingConfig u d) = timingConfig u d"
  by (simp add: fixActiveRateProfile_def timingConfig_def exampleConfig_def exampleTarget_simps)

lemma example_fixPidProfileIndex: "fixPidProfileIndex (timingConfig u d) = timingConfig u d"
  by (simp add: fixPidProfileIndex_def timingConfig_def exampleConfig_def PID_PROFILE_COUNT_def)

lemma timingState_simps:
  "onConfig f (timingState u d made) = exampleState\<lparr>config := f (timingConfig u d), calls := made\<rparr>"
  "exampleState\<lparr>config := timingConfig u d, calls := made\<rparr> = timingState u d made"
  "gyro_targetLooptime (timingState u d made) = 125"
  "gyroMpuDetectionResult_sensor (timingState u d made) = MPU_SENSOR_OTHER 0"
  "loadControlRateProfile (timingState u d made) = timingState u d (made @ [LoadControlRateProfile])"
  "loadPidProfile (timingState u d made) = timingState u d made"
  by (simp_all add: onConfig_def timingState_def exampleState_def loadControlRateProfile_def
        loadPidProfile_def call_def timingConfig_def exampleConfig_def)

lemma gyro_timing:
  "validateAndFixGyroConfig exampleTarget (timingState True 1 made)
     = timingState True 1 (made @ [LoadControlRateProfile])"
  "validateAndFixGyroConfig exampleTarget (timingState False 1 made)
     = timingState False 2 (made @ [LoadControlRateProfile])"
  "validateAndFixGyroConfig exampleTarget (timingState False 2 made)
     = timingState False 2 (made @ [LoadControlRateProfile])"
  by (simp_all add: validateAndFixGyroConfig_def Let_def timingState_simps example_fixGyroFilters example_fixGyroDenoms example_fixLooptime example_fixBlackboxDevice example_fixActiveRateProfile example_fixPidProfileIndex)

lemma validate_timing:
  "validateAndFixConfig exampleTarget (timingState True 1 made)
     = timingState False 1 (made @ [LoadControlRateProfile])"
  "validateAndFixConfig exampleTarget (timingState False 1 made)
     = timingState False 2 (made @ [LoadControlRateProfile])"
  "validateAndFixConfig exampleTarget (timingState False 2 made)
     = timingState False 2 (made @ [LoadControlRateProfile])"
  by (simp_all add: validateAndFixConfig_def Let_def timingState_simps gyro_timing
        example_fixMixerMode example_fixSerialConfig example_fixGps example_fixPidProfiles example_fixBrushed example_fixStandardPwmRate example_fixAlignments example_fixRxFeatures example_fixSoftSpi example_fixRssi example_fixFeedforward example_fixGpsRescue example_fixEscSensor example_fixModeActivationConditions example_fixDshotBitbang example_clearUnsupportedFeatures example_fixBeeper example_fixDshot example_fixOsdTimers example_fixVtx example_fixTarget)

text \<open>
  Claim C3 fails on the code. On the example target (a DShot build), a configuration with
  the protocol DSHOT150, unsynced PWM set and both denominators 1 keeps
  \<open>pid_process_denom = 1\<close> in the first pass, because the timing resolver takes the
  unsynced branch; the DShot block after it then clears \<open>dev_useUnsyncedPwm\<close>. The second
  pass takes the synced branch and raises \<open>pid_process_denom\<close> to 2: validating twice
  differs from validating once.
\<close>

theorem validateAndFixConfig_twice_differs:
  "dev_motorPwmProtocol (motorConfig (config (timingState True 1 []))) = PWM_TYPE_DSHOT150
   \<and> dev_useUnsyncedPwm (motorConfig (config (timingState True 1 [])))
   \<and> pid_process_denom (config (validateAndFixConfig exampleTarget (timingState True 1 []))) = 1
   \<and> pid_process_denom (config (validateAndFixConfig exampleTarget
         (validateAndFixConfig exampleTarget (timingState True 1 [])))) = 2
   \<and> config (validateAndFixConfig exampleTarget
         (validateAndFixConfig exampleTarget (timingState True 1 [])))
       \<noteq> config (validateAndFixConfig exampleTarget (timingState True 1 []))"
proof -
  define once where "once = validateAndFixConfig exampleTarget (timingState True 1 [])"
  define twice where "twice = validateAndFixConfig exampleTarget once"
  have o: "once = timingState False 1 [LoadControlRateProfile]"
    by (simp add: once_def validate_timing)
  have t: "twice = timingState False 2 [LoadControlRateProfile, LoadControlRateProfile]"
    by (simp add: twice_def o validate_timing)
  have a: "pid_process_denom (config once) = 1"
    by (simp add: o timingState_def timingConfig_def)
  have b: "pid_process_denom (config twice) = 2"
    by (simp add: t timingState_def timingConfig_def)
  have "config twice \<noteq> config once"
  proof
    assume "config twice = config once"
    then have "pid_process_denom (config twice) = pid_process_denom (config once)" by simp
    with a b show False by simp
  qed
  moreover have "dev_motorPwmProtocol (motorConfig (config (timingState True 1 []))) = PWM_TYPE_DSHOT150"
    "dev_useUnsyncedPwm (motorConfig (config (timingState True 1 [])))"
    by (simp_all add: timingState_def timingConfig_def)
  ultimately show ?thesis using a b by (simp add: once_def twice_def)
qed

subsection \<open>The loop time and the motor update period\<close>


lemma gyro_tail_fields [simp]:
  "pid_process_denom (fixBlackboxDevice t c) = pid_process_denom c"
  "pid_process_denom (fixActiveRateProfile t c) = pid_process_denom c"
  "pid_process_denom (fixPidProfileIndex c) = pid_process_denom c"
  "pid_process_denom (fixGyroFilters t l c) = pid_process_denom c"
  "gyroConfig (fixBlackboxDevice t c) = gyroConfig c"
  "gyroConfig (fixActiveRateProfile t c) = gyroConfig c"
  "gyroConfig (fixPidProfileIndex c) = gyroConfig c"
  "gyroConfig (fixLooptime t sensor c) = gyroConfig c"
  "motorConfig (fixBlackboxDevice t c) = motorConfig c"
  "motorConfig (fixActiveRateProfile t c) = motorConfig c"
  "motorConfig (fixPidProfileIndex c) = motorConfig c"
  "motorConfig (fixGyroFilters t l c) = motorConfig c"
  "motorConfig (fixGyroDenoms t c) = motorConfig c"
  by (simp_all add: fixBlackboxDevice_def fixActiveRateProfile_def fixPidProfileIndex_def
        fixGyroFilters_def fixGyroDenoms_def fixLooptime_def Let_def featureDisable_def)

lemma gyro_lpf_kept [simp]:
  "gyro_hardware_lpf (gyroConfig (fixGyroFilters t l c)) = gyro_hardware_lpf (gyroConfig c)"
  "gyro_hardware_lpf (gyroConfig (fixGyroDenoms t c)) = gyro_hardware_lpf (gyroConfig c)"
  by (simp_all add: fixGyroFilters_def fixGyroDenoms_def Let_def featureDisable_def)


lemma fixLooptime_protocol [simp]:
  "dev_motorPwmProtocol (motorConfig (fixLooptime t sensor c)) = dev_motorPwmProtocol (motorConfig c)"
  "dev_useUnsyncedPwm (motorConfig (fixLooptime t sensor c)) = dev_useUnsyncedPwm (motorConfig c)"
  by (simp_all add: fixLooptime_def Let_def)







lemma fixGyroFilters_sync [simp]:
  "gyro_sync_denom (gyroConfig (fixGyroFilters t l c)) = gyro_sync_denom (gyroConfig c)"
  by (simp add: fixGyroFilters_def Let_def featureDisable_def)

















end
